theory Spec2Isabelle
  imports Main "HOL-Library.Word" "HOL-Library.Signed_Division" "HOL-Library.Char_ord"
    "HOL-Library.List_Lexorder"
begin

section \<open>Types (types.hpp)\<close>

text \<open>
  The enum \<open>Types::DataTypes\<close>; its values are written with the
  suffix \<open>_tag\<close>. Every type object carries such a tag in its mutable field \<open>dataType\<close>; the class of the object (which decides the \<open>compare\<close> override
  and the fields that exist) is the constructor of \<open>Type\<close> below.
\<close>

datatype DataTypes =
  INT_tag | CHAR_tag | STRING_tag | BOOL_tag | NULLVAL_tag | LIST_tag | TUPLE_tag | FUNC_tag | GEN_tag | TYPECLASS_tag | UNKNOWN_tag

text \<open>
  A \<open>TypePtr\<close> is a \<open>std::shared_ptr<Type>\<close>: \<open>None\<close> is the null pointer. Type
  objects are held by value: the children of a type are the objects the pointers lead to.
  The first argument of every constructor is the field \<open>dataType\<close>. The fields of
  \<open>FuncType\<close> are, in order: \<open>genericTypes\<close>, \<open>argumentTypes\<close>, \<open>argumentNames\<close>,
  \<open>returnType\<close>, \<open>functionBody\<close> (the address of the body's node, if any),
  \<open>functionInnerEnvironment\<close> (a pointer to a map from names to the addresses of type
  objects, if any) and \<open>isBuiltin\<close>. The flag \<open>resolved\<close> of the base class is left
  out: no function modelled here reads or writes it.
\<close>

datatype Type =
    IntType DataTypes
  | CharType DataTypes
  | StringType DataTypes
  | BoolType DataTypes
  | NullType DataTypes
  | UnknownType DataTypes
  | GenType DataTypes string
  | ListType DataTypes "Type option"
  | TupleType DataTypes "Type option list"
  | FuncType DataTypes "Type option list" "Type option list" "string list" "Type option"
      "nat option" "(string \<Rightarrow> nat option) option" bool
  | TypeclassType DataTypes string "(string \<times> Type option) list"

type_synonym TypePtr = "Type option"

fun dataType :: "Type \<Rightarrow> DataTypes" where
  "dataType (IntType d) = d"
| "dataType (CharType d) = d"
| "dataType (StringType d) = d"
| "dataType (BoolType d) = d"
| "dataType (NullType d) = d"
| "dataType (UnknownType d) = d"
| "dataType (GenType d i) = d"
| "dataType (ListType d l) = d"
| "dataType (TupleType d ts) = d"
| "dataType (FuncType d gs args ns r b e bi) = d"
| "dataType (TypeclassType d i fs) = d"

text \<open>The assignment \<open>t->dataType = d\<close>.\<close>

fun setDataType :: "DataTypes \<Rightarrow> Type \<Rightarrow> Type" where
  "setDataType d (IntType _) = IntType d"
| "setDataType d (CharType _) = CharType d"
| "setDataType d (StringType _) = StringType d"
| "setDataType d (BoolType _) = BoolType d"
| "setDataType d (NullType _) = NullType d"
| "setDataType d (UnknownType _) = UnknownType d"
| "setDataType d (GenType _ i) = GenType d i"
| "setDataType d (ListType _ l) = ListType d l"
| "setDataType d (TupleType _ ts) = TupleType d ts"
| "setDataType d (FuncType _ gs args ns r b e bi) = FuncType d gs args ns r b e bi"
| "setDataType d (TypeclassType _ i fs) = TypeclassType d i fs"

text \<open>
  The constructors of the classes, which fix the tag: \<open>IntType()\<close>, \<open>ListType(t)\<close> and so
  on. The default constructors \<open>ListType()\<close> and \<open>TupleType()\<close> build an object tagged
  \<open>UNKNOWN\<close> (with a null element type, resp. no element types).
\<close>

definition newIntType :: Type where "newIntType = IntType INT_tag"
definition newCharType :: Type where "newCharType = CharType CHAR_tag"
definition newStringType :: Type where "newStringType = StringType STRING_tag"
definition newBoolType :: Type where "newBoolType = BoolType BOOL_tag"
definition newNullType :: Type where "newNullType = NullType NULLVAL_tag"
definition newUnknownType :: Type where "newUnknownType = UnknownType UNKNOWN_tag"
definition newGenType :: "string \<Rightarrow> Type" where "newGenType i = GenType GEN_tag i"
definition newListType :: "TypePtr \<Rightarrow> Type" where "newListType t = ListType LIST_tag t"
definition newTupleType :: "TypePtr list \<Rightarrow> Type" where "newTupleType ts = TupleType TUPLE_tag ts"
definition newTypeclassType :: "string \<Rightarrow> (string \<times> TypePtr) list \<Rightarrow> Type" where
  "newTypeclassType i fs = TypeclassType TYPECLASS_tag i fs"

subsection \<open>Structural comparison: the virtual method \<open>Type::compare\<close> and its overrides\<close>

text \<open>
  \<open>this->compare(otherType)\<close> returns a truth value and may assign to fields of both
  objects, so the model returns the truth value together with the two objects as they are
  after the call. The result \<open>None\<close> stands for undefined behaviour of the C++ code: a
  null pointer is dereferenced, or \<open>std::static_pointer_cast\<close> is applied to an object of
  another class. As objects are held by value, two pointers to one object are two values
  here; where a call assigns to an object, only the copy reached through the pointer the
  code used is updated.

  \<open>Type_compare\<close> is the method of the base class, which \<open>IntType\<close>, \<open>CharType\<close>,
  \<open>StringType\<close>, \<open>BoolType\<close>, \<open>NullType\<close>, \<open>UnknownType\<close> and \<open>GenType\<close> inherit.
\<close>

definition Type_compare :: "Type \<Rightarrow> TypePtr \<Rightarrow> (bool \<times> Type \<times> TypePtr) option" where
  "Type_compare this otherType =
     (case otherType of
        None \<Rightarrow> Some (False, this, None)
      | Some ot \<Rightarrow>
          if dataType ot = UNKNOWN_tag
          then Some (True, this, Some (setDataType (dataType this) ot))
          else Some (dataType this = dataType ot, this, otherType))"

fun compare :: "Type \<Rightarrow> TypePtr \<Rightarrow> (bool \<times> Type \<times> TypePtr) option"
and compareTupleTypes :: "TypePtr list \<Rightarrow> TypePtr list \<Rightarrow> (bool \<times> TypePtr list \<times> TypePtr list) option"
and compareArgumentTypes :: "TypePtr list \<Rightarrow> TypePtr list \<Rightarrow> (bool \<times> TypePtr list \<times> TypePtr list) option"
where
  "compare (IntType d) otherType = Type_compare (IntType d) otherType"
| "compare (CharType d) otherType = Type_compare (CharType d) otherType"
| "compare (StringType d) otherType = Type_compare (StringType d) otherType"
| "compare (BoolType d) otherType = Type_compare (BoolType d) otherType"
| "compare (NullType d) otherType = Type_compare (NullType d) otherType"
| "compare (UnknownType d) otherType = Type_compare (UnknownType d) otherType"
| "compare (GenType d i) otherType = Type_compare (GenType d i) otherType"
| "compare (ListType d listType) otherType =
     (case otherType of
        None \<Rightarrow> Some (False, ListType d listType, None)
      | Some ot \<Rightarrow>
          if dataType ot = UNKNOWN_tag
          then Some (True, ListType d listType, Some (setDataType d ot))
          else if d = UNKNOWN_tag \<and> dataType ot = LIST_tag
          then (case ot of
                  ListType _ otherListType \<Rightarrow> Some (True, ListType LIST_tag otherListType, otherType)
                | _ \<Rightarrow> None)
          else if d = dataType ot
          then (case listType of
                  None \<Rightarrow> None
                | Some lt \<Rightarrow>
                    (case ot of
                       ListType od otherListType \<Rightarrow>
                         if dataType lt = UNKNOWN_tag
                         then Some (True, ListType d otherListType, otherType)
                         else (case compare lt otherListType of
                                 None \<Rightarrow> None
                               | Some (b, lt', olt') \<Rightarrow>
                                   Some (b, ListType d (Some lt'), Some (ListType od olt')))
                     | _ \<Rightarrow> None))
          else Some (False, ListType d listType, otherType))"
| "compare (TupleType d tupleTypes) otherType =
     (case otherType of
        None \<Rightarrow> Some (False, TupleType d tupleTypes, None)
      | Some ot \<Rightarrow>
          if d = UNKNOWN_tag \<and> dataType ot = TUPLE_tag
          then (case ot of
                  TupleType _ otherTupleTypes \<Rightarrow> Some (True, TupleType TUPLE_tag otherTupleTypes, otherType)
                | _ \<Rightarrow> None)
          else if d \<noteq> dataType ot
          then Some (False, TupleType d tupleTypes, otherType)
          else (case ot of
                  TupleType od otherTupleTypes \<Rightarrow>
                    if length tupleTypes \<noteq> length otherTupleTypes
                    then Some (False, TupleType d tupleTypes, otherType)
                    else (case compareTupleTypes tupleTypes otherTupleTypes of
                            None \<Rightarrow> None
                          | Some (b, ts', os') \<Rightarrow>
                              Some (b, TupleType d ts', Some (TupleType od os')))
                | _ \<Rightarrow> None))"
| "compare (FuncType d gs args ns r body env bi) otherType =
     (case otherType of
        None \<Rightarrow> Some (False, FuncType d gs args ns r body env bi, None)
      | Some ot \<Rightarrow>
          if d = UNKNOWN_tag \<and> dataType ot = FUNC_tag
          then (case ot of
                  FuncType _ ogs oargs ons oret obody oenv obi \<Rightarrow>
                    Some (True, FuncType FUNC_tag ogs oargs ns oret obody oenv bi, otherType)
                | _ \<Rightarrow> None)
          else if d = FUNC_tag \<and> dataType ot = FUNC_tag
          then (case ot of
                  FuncType od ogs oargs ons oret obody oenv obi \<Rightarrow>
                    if length args \<noteq> length oargs
                    then Some (False, FuncType d gs args ns r body env bi, otherType)
                    else (case compareArgumentTypes args oargs of
                            None \<Rightarrow> None
                          | Some (b, args', oargs') \<Rightarrow>
                              if \<not> b
                              then Some (False, FuncType d gs args' ns r body env bi,
                                         Some (FuncType od ogs oargs' ons oret obody oenv obi))
                              else (case r of
                                      None \<Rightarrow> None
                                    | Some rt \<Rightarrow>
                                        (case compare rt oret of
                                           None \<Rightarrow> None
                                         | Some (b', rt', oret') \<Rightarrow>
                                             Some (b', FuncType d gs args' ns (Some rt') body env bi,
                                                   Some (FuncType od ogs oargs' ons oret' obody oenv obi)))))
                | _ \<Rightarrow> None)
          else Some (True, FuncType d gs args ns r body env bi, otherType))"
| "compare (TypeclassType d ident fs) otherType =
     (case otherType of
        None \<Rightarrow> Some (False, TypeclassType d ident fs, None)
      | Some ot \<Rightarrow>
          if d = dataType ot
          then (case ot of
                  TypeclassType _ otherIdent _ \<Rightarrow> Some (ident = otherIdent, TypeclassType d ident fs, otherType)
                | _ \<Rightarrow> None)
          else Some (False, TypeclassType d ident fs, otherType))"
| "compareTupleTypes [] os = Some (True, [], os)"
| "compareTupleTypes (t # ts) [] = None"
| "compareTupleTypes (t # ts) (otherTupleElementType # os) =
     (case t of
        None \<Rightarrow> None
      | Some ty \<Rightarrow>
          if dataType ty = UNKNOWN_tag
          then (case compareTupleTypes ts os of
                  None \<Rightarrow> None
                | Some (b, ts', os') \<Rightarrow>
                    Some (b, otherTupleElementType # ts', otherTupleElementType # os'))
          else (case compare ty otherTupleElementType of
                  None \<Rightarrow> None
                | Some (b, ty', o') \<Rightarrow>
                    if \<not> b then Some (False, Some ty' # ts, o' # os)
                    else (case compareTupleTypes ts os of
                            None \<Rightarrow> None
                          | Some (b', ts', os') \<Rightarrow> Some (b', Some ty' # ts', o' # os'))))"
| "compareArgumentTypes [] os = Some (True, [], os)"
| "compareArgumentTypes (a # args) [] = None"
| "compareArgumentTypes (a # args) (otherArgumentType # os) =
     (case a of
        None \<Rightarrow> None
      | Some ty \<Rightarrow>
          (case compare ty otherArgumentType of
             None \<Rightarrow> None
           | Some (b, ty', o') \<Rightarrow>
               if \<not> b then Some (False, Some ty' # args, o' # os)
               else (case compareArgumentTypes args os of
                       None \<Rightarrow> None
                     | Some (b', args', os') \<Rightarrow> Some (b', Some ty' # args', o' # os'))))"


subsection \<open>The unification primitive \<open>TypeChecker::compare\<close>\<close>

text \<open>
  Both arguments are references to pointers: the call may make either pointer point to
  the other object. The model returns the truth value and the two pointers after the call.
\<close>

definition TypeChecker_compare :: "TypePtr \<Rightarrow> TypePtr \<Rightarrow> (bool \<times> TypePtr \<times> TypePtr) option" where
  "TypeChecker_compare leftType rightType =
     (case leftType of
        None \<Rightarrow> None
      | Some lt \<Rightarrow>
          if dataType lt = UNKNOWN_tag then Some (True, rightType, rightType)
          else (case rightType of
                  None \<Rightarrow> None
                | Some rt \<Rightarrow>
                    if dataType rt = UNKNOWN_tag then Some (True, leftType, leftType)
                    else (case compare lt rightType of
                            None \<Rightarrow> None
                          | Some (b, lt', rt') \<Rightarrow> Some (b, Some lt', rt'))))"

text \<open>
  A concrete type: an object built by the constructors from \<open>Int\<close>, \<open>Char\<close>, \<open>String\<close>,
  \<open>Bool\<close>, \<open>Null\<close>, \<open>List\<close>, \<open>Tuple\<close>, \<open>Func\<close>, \<open>Generic\<close> and \<open>Typeclass\<close>, whose
  tag is the one its constructor sets and in which every type that \<open>compare\<close> visits is
  concrete again.
\<close>

fun concrete :: "Type \<Rightarrow> bool"
and concretePtr :: "TypePtr \<Rightarrow> bool"
and concretePtrs :: "TypePtr list \<Rightarrow> bool"
where
  "concrete (IntType d) = (d = INT_tag)"
| "concrete (CharType d) = (d = CHAR_tag)"
| "concrete (StringType d) = (d = STRING_tag)"
| "concrete (BoolType d) = (d = BOOL_tag)"
| "concrete (NullType d) = (d = NULLVAL_tag)"
| "concrete (UnknownType d) = False"
| "concrete (GenType d i) = (d = GEN_tag)"
| "concrete (ListType d l) = (d = LIST_tag \<and> concretePtr l)"
| "concrete (TupleType d ts) = (d = TUPLE_tag \<and> concretePtrs ts)"
| "concrete (FuncType d gs args ns r b e bi) = (d = FUNC_tag \<and> concretePtrs args \<and> concretePtr r)"
| "concrete (TypeclassType d i fs) = (d = TYPECLASS_tag)"
| "concretePtr None = False"
| "concretePtr (Some t) = concrete t"
| "concretePtrs [] = True"
| "concretePtrs (p # ps) = (concretePtr p \<and> concretePtrs ps)"

section \<open>Tokens and expressions (token.hpp, expressions.hpp)\<close>

datatype TokenType = IDENT | KEYWORD | VAL | DELIM | ERROR

record FilePosition =
  fileLine :: int
  fileColumn :: int
  currentLineText :: string

record Token =
  tokenType :: TokenType
  position :: FilePosition
  text' :: string

text \<open>The enum \<open>Operator::OperatorTypes\<close>, its values written with the suffix \<open>_op\<close>.\<close>

datatype OperatorTypes =
  PLUS_op | MINUS_op | TIMES_op | DIV_op | MOD_op | GRT_op | LST_op | NOT_op | EQ_op
  | NOTEQ_op | GRTEQ_op | LSTEQ_op | AND_op | OR_op

text \<open>
  The data of a literal: the \<open>std::variant\<close> of \<open>Literal\<close>, which the interpreter reads
  with \<open>std::get<int>\<close>, \<open>std::get<char>\<close>, \<open>std::get<std::string>\<close> and
  \<open>std::get<bool>\<close>. An \<open>int\<close> is a 32-bit word read in two's complement.
\<close>

type_synonym int32 = "32 word"

datatype LiteralData = IntData int32 | BoolData bool | CharData char | StringData string | NoData

text \<open>
  The expressions modelled are the nodes \<open>Literal\<close>, \<open>Primitive\<close>, \<open>Branch\<close> and the
  terminator \<open>End\<close>. Every node carries its token and its slot \<open>returnType\<close> (the
  terminator's is the null pointer).
\<close>

datatype Expression =
    End
  | Literal Token TypePtr LiteralData
  | Primitive Token TypePtr OperatorTypes Expression Expression
  | Branch Token TypePtr Expression Expression Expression

fun returnType :: "Expression \<Rightarrow> TypePtr" where
  "returnType End = None"
| "returnType (Literal tok rt d) = rt"
| "returnType (Primitive tok rt oper l r) = rt"
| "returnType (Branch tok rt c t e) = rt"

fun setReturnType :: "TypePtr \<Rightarrow> Expression \<Rightarrow> Expression" where
  "setReturnType ty End = End"
| "setReturnType ty (Literal tok rt d) = Literal tok ty d"
| "setReturnType ty (Primitive tok rt oper l r) = Primitive tok ty oper l r"
| "setReturnType ty (Branch tok rt c t e) = Branch tok ty c t e"

text \<open>
  A function declaration (\<open>Function\<close>) with the fields the checker and the interpreter
  read: its name, its generic parameters (pointers to \<open>GenType\<close> objects), its value
  parameters (the name and the type pointer of each \<open>Argument\<close>), its body, its type
  (the field \<open>returnType\<close> of the node, which points to the \<open>FuncType\<close> object of the
  function) and the flag \<open>isBuiltin\<close>. The representation \<open>'ty\<close> of a type pointer is a
  parameter: the interpreter copies the pointer into the function value (a \<open>TypePtr\<close>),
  the checker stores it in environments that share the type objects (an address). A
  \<open>Program\<close> is its declarations and its body.
\<close>

record 'ty Function =
  name :: string
  genericParameters :: "'ty list"
  parameters :: "(string \<times> 'ty) list"
  functionBody :: Expression
  functionType :: 'ty
  isBuiltin :: bool

record 'ty Program =
  functions' :: "'ty Function list"
  body :: Expression

section \<open>Values (values.hpp)\<close>

text \<open>
  A \<open>ValuePtr\<close> is the address of a value object in the store; an environment is a
  \<open>std::map\<close> from names to such addresses. The first argument of every constructor of
  \<open>Value\<close> is the field \<open>type\<close>. The fields of \<open>FunctionValue\<close> are \<open>parameterNames\<close>,
  \<open>functionBody\<close>, \<open>functionBodyEnvironment\<close>, \<open>isBuiltin\<close> and \<open>builtinEnum\<close> (the
  name of the built-in, if the value is one).
\<close>

type_synonym ValuePtr = nat
type_synonym Environment = "string \<Rightarrow> ValuePtr option"

datatype Value =
    BaseValue TypePtr
  | IntValue TypePtr int32
  | CharValue TypePtr char
  | StringValue TypePtr string
  | BoolValue TypePtr bool
  | NullValue TypePtr
  | ListValue TypePtr "ValuePtr list"
  | TupleValue TypePtr "ValuePtr list"
  | FunctionValue TypePtr "string list" Expression Environment bool "string option"
  | TypeclassValue TypePtr Environment

fun valueType :: "Value \<Rightarrow> TypePtr" where
  "valueType (BaseValue t) = t"
| "valueType (IntValue t i) = t"
| "valueType (CharValue t c) = t"
| "valueType (StringValue t s) = t"
| "valueType (BoolValue t b) = t"
| "valueType (NullValue t) = t"
| "valueType (ListValue t xs) = t"
| "valueType (TupleValue t xs) = t"
| "valueType (FunctionValue t ps b e bi be) = t"
| "valueType (TypeclassValue t fs) = t"

fun setValueType :: "TypePtr \<Rightarrow> Value \<Rightarrow> Value" where
  "setValueType ty (BaseValue t) = BaseValue ty"
| "setValueType ty (IntValue t i) = IntValue ty i"
| "setValueType ty (CharValue t c) = CharValue ty c"
| "setValueType ty (StringValue t s) = StringValue ty s"
| "setValueType ty (BoolValue t b) = BoolValue ty b"
| "setValueType ty (NullValue t) = NullValue ty"
| "setValueType ty (ListValue t xs) = ListValue ty xs"
| "setValueType ty (TupleValue t xs) = TupleValue ty xs"
| "setValueType ty (FunctionValue t ps b e bi be) = FunctionValue ty ps b e bi be"
| "setValueType ty (TypeclassValue t fs) = TypeclassValue ty fs"

section \<open>The interpreter's primitive operations (\<open>Interpreter::doOperation\<close>)\<close>

text \<open>
  The result of \<open>doOperation\<close>: a new value object (\<open>std::make_shared\<close>), the shared
  \<open>errorNullValue\<close> of the last line, a runtime error (\<open>printError\<close> sets the error
  latch, prints the message with the stack trace and throws \<open>RuntimeException\<close>), or
  undefined behaviour of the C++ expression evaluated.
\<close>

datatype OpResult = NewValue Value | ErrorNullValue | RuntimeError string | UndefinedOp

text \<open>The template parameter \<open>PrimitiveType\<close> of \<open>doOperation\<close>.\<close>

datatype PrimitiveType = IntValue_T | CharValue_T | StringValue_T | BoolValue_T

text \<open>
  \<open>std::static_pointer_cast<IntValue>(v)->data\<close> and \<open>...<BoolValue>(v)->data\<close>: reading
  the field of an object of another class is undefined (\<open>None\<close>).
\<close>

fun intData :: "Value \<Rightarrow> int32 option" where
  "intData (IntValue t i) = Some i"
| "intData _ = None"

fun boolData :: "Value \<Rightarrow> bool option" where
  "boolData (BoolValue t b) = Some b"
| "boolData _ = None"

text \<open>
  An arithmetic result of type \<open>int\<close>: signed overflow is undefined behaviour in C++, so
  only a mathematical result inside the 32-bit range gives a value.
\<close>

definition intResult :: "int \<Rightarrow> OpResult" where
  "intResult z =
     (if - (2 ^ 31) \<le> z \<and> z < 2 ^ 31 then NewValue (IntValue (Some newIntType) (word_of_int z))
      else UndefinedOp)"

definition boolResult :: "bool \<Rightarrow> OpResult" where
  "boolResult b = NewValue (BoolValue (Some newBoolType) b)"

text \<open>
  The comparisons \<open>static_pointer_cast<PrimitiveType>(l)->data \<bowtie> ...(r)->data\<close>. The
  argument \<open>rel\<close> is the outcome on the three cases less, equal, greater. Integers are
  compared as signed numbers, strings as \<open>std::string\<close> does (lexicographically by
  unsigned character), booleans with \<open>false < true\<close>. Characters are compared as values
  of the type \<open>char\<close>, which is a signed type where the interpreter is built (x86-64):
  \<open>signedChar\<close> is the value of a character there, from \<open>-128\<close> to \<open>127\<close>.
\<close>

definition signedChar :: "char \<Rightarrow> int" where
  "signedChar c = (if of_char c < (128::nat) then int (of_char c) else int (of_char c) - 256)"

definition compareData :: "PrimitiveType \<Rightarrow> (bool \<Rightarrow> bool \<Rightarrow> bool) \<Rightarrow> Value \<Rightarrow> Value \<Rightarrow> OpResult" where
  "compareData pt rel l r =
     (case (pt, l, r) of
        (IntValue_T, IntValue _ a, IntValue _ b) \<Rightarrow> boolResult (rel (sint a < sint b) (a = b))
      | (CharValue_T, CharValue _ a, CharValue _ b) \<Rightarrow>
          boolResult (rel (signedChar a < signedChar b) (a = b))
      | (StringValue_T, StringValue _ a, StringValue _ b) \<Rightarrow> boolResult (rel (a < b) (a = b))
      | (BoolValue_T, BoolValue _ a, BoolValue _ b) \<Rightarrow> boolResult (rel (\<not> a \<and> b) (a = b))
      | _ \<Rightarrow> UndefinedOp)"

definition arithmetic :: "(int \<Rightarrow> int \<Rightarrow> OpResult) \<Rightarrow> Value \<Rightarrow> Value \<Rightarrow> OpResult" where
  "arithmetic f l r =
     (case (intData l, intData r) of
        (Some a, Some b) \<Rightarrow> f (sint a) (sint b)
      | _ \<Rightarrow> UndefinedOp)"

text \<open>
  \<open>doOperation<PrimitiveType>(token, op, leftSide, rightSide)\<close>, on the objects the two
  pointers lead to. Division tests its right operand against zero and reports the runtime
  error; the branch of \<open>%\<close> evaluates \<open>l % r\<close> with no test, which C++ leaves undefined
  for \<open>r = 0\<close> (and, like \<open>/\<close>, when the quotient is not representable). \<open>/\<close> and
  \<open>%\<close> truncate towards zero (\<open>sdiv\<close>, \<open>smod\<close>); \<open>&&\<close> and \<open>||\<close> read their right
  operand only when the left one does not decide.
\<close>

definition doOperation :: "PrimitiveType \<Rightarrow> Token \<Rightarrow> OperatorTypes \<Rightarrow> Value \<Rightarrow> Value \<Rightarrow> OpResult" where
  "doOperation pt token oper leftSide rightSide =
     (case oper of
        PLUS_op \<Rightarrow> arithmetic (\<lambda>a b. intResult (a + b)) leftSide rightSide
      | MINUS_op \<Rightarrow> arithmetic (\<lambda>a b. intResult (a - b)) leftSide rightSide
      | TIMES_op \<Rightarrow> arithmetic (\<lambda>a b. intResult (a * b)) leftSide rightSide
      | DIV_op \<Rightarrow>
          (case intData rightSide of
             None \<Rightarrow> UndefinedOp
           | Some b \<Rightarrow>
               if b = 0 then RuntimeError ''Error: Division by zero!''
               else arithmetic (\<lambda>a b. intResult (a sdiv b)) leftSide rightSide)
      | MOD_op \<Rightarrow>
          arithmetic (\<lambda>a b. if b = 0 then UndefinedOp
                             else (case intResult (a sdiv b) of
                                     NewValue _ \<Rightarrow> intResult (a smod b)
                                   | _ \<Rightarrow> UndefinedOp))
            leftSide rightSide
      | GRT_op \<Rightarrow> compareData pt (\<lambda>lt eq. \<not> lt \<and> \<not> eq) leftSide rightSide
      | LST_op \<Rightarrow> compareData pt (\<lambda>lt eq. lt) leftSide rightSide
      | NOT_op \<Rightarrow> compareData pt (\<lambda>lt eq. eq) leftSide rightSide
      | EQ_op \<Rightarrow> compareData pt (\<lambda>lt eq. eq) leftSide rightSide
      | NOTEQ_op \<Rightarrow> compareData pt (\<lambda>lt eq. \<not> eq) leftSide rightSide
      | GRTEQ_op \<Rightarrow> compareData pt (\<lambda>lt eq. \<not> lt) leftSide rightSide
      | LSTEQ_op \<Rightarrow> compareData pt (\<lambda>lt eq. lt \<or> eq) leftSide rightSide
      | AND_op \<Rightarrow>
          (case boolData leftSide of
             None \<Rightarrow> UndefinedOp
           | Some a \<Rightarrow>
               if \<not> a then boolResult False
               else (case boolData rightSide of None \<Rightarrow> UndefinedOp | Some b \<Rightarrow> boolResult b))
      | OR_op \<Rightarrow>
          (case boolData leftSide of
             None \<Rightarrow> UndefinedOp
           | Some a \<Rightarrow>
               if a then boolResult True
               else (case boolData rightSide of None \<Rightarrow> UndefinedOp | Some b \<Rightarrow> boolResult b)))"

section \<open>The built-in functions on lists and strings (builtinImplementations.cpp)\<close>

text \<open>
  The store of value objects: the objects at their addresses, the address the next
  \<open>std::make_shared\<close> will use, the latch \<open>BuiltinImplementations::error\<close> and the
  messages \<open>printError\<close> has printed. The static \<open>nullValue\<close> is the object at address 0.
\<close>

record Store =
  objects :: "ValuePtr \<Rightarrow> Value option"
  nextValue :: nat
  error :: bool
  diagnostics :: "string list"

definition nullValue :: ValuePtr where
  "nullValue = 0"

definition make_shared :: "Value \<Rightarrow> Store \<Rightarrow> ValuePtr \<times> Store" where
  "make_shared v s =
     (nextValue s, s\<lparr>objects := (objects s)(nextValue s \<mapsto> v), nextValue := Suc (nextValue s)\<rparr>)"

definition printError :: "Token \<Rightarrow> string \<Rightarrow> Store \<Rightarrow> Store" where
  "printError token errorMessage s = s\<lparr>error := True, diagnostics := diagnostics s @ [errorMessage]\<rparr>"

text \<open>The assignment to the field \<open>type\<close> of the object at an address.\<close>

definition assignType :: "ValuePtr \<Rightarrow> TypePtr \<Rightarrow> Store \<Rightarrow> Store" where
  "assignType p ty s = s\<lparr>objects := (objects s)(p := map_option (setValueType ty) (objects s p))\<rparr>"

text \<open>The assignment to the field \<open>listData\<close> of the list object at an address.\<close>

definition assignListData :: "ValuePtr \<Rightarrow> ValuePtr list \<Rightarrow> Store \<Rightarrow> Store" where
  "assignListData p xs s =
     s\<lparr>objects := (objects s)(p := (case objects s p of
                                       Some (ListValue t _) \<Rightarrow> Some (ListValue t xs)
                                     | v \<Rightarrow> v))\<rparr>"

text \<open>
  The outcome of a built-in: it returns a pointer, in a new store; or \<open>at()\<close> throws
  \<open>std::out_of_range\<close>; or the behaviour is undefined (a pointer cast to the class of
  another object, a null pointer read, an iterator past the end); or a loop does not end.
\<close>

datatype Outcome = Returned ValuePtr Store | OutOfRange | Undefined | Diverged

text \<open>
  \<open>getArgumentValue<ValueType>(index, functionValue, environment)\<close> is
  \<open>environment.at(functionValue->parameterNames.at(index))\<close>, cast to \<open>ValueType\<close>. Of the
  function value the built-ins read the parameter names only, which are passed here.
  \<open>None\<close> is the exception of \<open>at()\<close>. The cast is checked where the object is read:
  \<open>listValueAt\<close>, \<open>intValueAt\<close>, \<open>stringValueAt\<close> are undefined (\<open>None\<close>) on an object
  of another class.
\<close>

definition getArgumentValue :: "nat \<Rightarrow> string list \<Rightarrow> Environment \<Rightarrow> ValuePtr option" where
  "getArgumentValue index parameterNames environment =
     (if index < length parameterNames then environment (parameterNames ! index) else None)"

definition listValueAt :: "Store \<Rightarrow> ValuePtr \<Rightarrow> (TypePtr \<times> ValuePtr list) option" where
  "listValueAt s p = (case objects s p of Some (ListValue t xs) \<Rightarrow> Some (t, xs) | _ \<Rightarrow> None)"

definition intValueAt :: "Store \<Rightarrow> ValuePtr \<Rightarrow> (TypePtr \<times> int32) option" where
  "intValueAt s p = (case objects s p of Some (IntValue t i) \<Rightarrow> Some (t, i) | _ \<Rightarrow> None)"

definition stringValueAt :: "Store \<Rightarrow> ValuePtr \<Rightarrow> string option" where
  "stringValueAt s p = (case objects s p of Some (StringValue t str) \<Rightarrow> Some str | _ \<Rightarrow> None)"

definition charValueAt :: "Store \<Rightarrow> ValuePtr \<Rightarrow> char option" where
  "charValueAt s p = (case objects s p of Some (CharValue t c) \<Rightarrow> Some c | _ \<Rightarrow> None)"

text \<open>
  \<open>makeListType(listValue, listData)\<close>: a new list value with a new \<open>ListType\<close> around
  the element type of \<open>listValue\<close>.
\<close>

definition makeListType :: "TypePtr \<Rightarrow> ValuePtr list \<Rightarrow> Store \<Rightarrow> Outcome" where
  "makeListType listValueType listData s =
     (case listValueType of
        Some (ListType d lt) \<Rightarrow>
          (case make_shared (ListValue (Some (newListType lt)) listData) s of (p, s') \<Rightarrow> Returned p s')
      | _ \<Rightarrow> Undefined)"

text \<open>
  The test
  \<open>elementValue->type->compare(static_pointer_cast<ListType>(listValue->type)->listType)\<close>
  of the built-ins that take an element: its truth value, and the store in which the two
  type objects are as \<open>compare\<close> leaves them.
\<close>

definition compareElementType :: "ValuePtr \<Rightarrow> ValuePtr \<Rightarrow> Store \<Rightarrow> (bool \<times> Store) option" where
  "compareElementType elementValue listValue s =
     (case objects s elementValue of
        None \<Rightarrow> None
      | Some ev \<Rightarrow>
          (case valueType ev of
             None \<Rightarrow> None
           | Some elementType \<Rightarrow>
               (case listValueAt s listValue of
                  Some (Some (ListType d lt), xs) \<Rightarrow>
                    (case compare elementType lt of
                       None \<Rightarrow> None
                     | Some (b, elementType', lt') \<Rightarrow>
                         Some (b, assignType listValue (Some (ListType d lt'))
                                    (assignType elementValue (Some elementType') s)))
                | _ \<Rightarrow> None)))"

definition errorElementType :: string where
  "errorElementType = ''Error: Element type must match list type: ''"

definition errorOutOfBounds :: string where
  "errorOutOfBounds = ''Error: Out of bounds list access: ''"

definition reportError :: "Token \<Rightarrow> string \<Rightarrow> Store \<Rightarrow> Outcome" where
  "reportError token message s =
     Returned nullValue (printError token (message @ currentLineText (position token)) s)"

text \<open>
  \<open>insert\<close> and \<open>insertInPlace\<close> test the index with
  \<open>!listValue->listData.empty() && index >= listValue->listData.size()\<close>, after its
  conversion to \<open>unsigned int\<close>. On an empty list no index is rejected, and
  \<open>listData.insert(listData.begin() + index, elementValue)\<close> with an index above the
  size is a call with an iterator past the end of the vector, which is undefined.
\<close>

definition insertBuiltin :: "Token \<Rightarrow> string list \<Rightarrow> Environment \<Rightarrow> Store \<Rightarrow> Outcome" where
  "insertBuiltin token parameterNames environment s =
     (case getArgumentValue 0 parameterNames environment of
        None \<Rightarrow> OutOfRange
      | Some listValue \<Rightarrow>
     (case getArgumentValue 1 parameterNames environment of
        None \<Rightarrow> OutOfRange
      | Some elementValue \<Rightarrow>
     (case compareElementType elementValue listValue s of
        None \<Rightarrow> Undefined
      | Some (b, s1) \<Rightarrow>
          if \<not> b then reportError token errorElementType s1
          else
     (case getArgumentValue 2 parameterNames environment of
        None \<Rightarrow> OutOfRange
      | Some indexValue \<Rightarrow>
     (case (intValueAt s1 indexValue, listValueAt s1 listValue) of
        (Some (_, i), Some (listType, listData)) \<Rightarrow>
          if listData \<noteq> [] \<and> unat i \<ge> length listData then reportError token errorOutOfBounds s1
          else if unat i > length listData then Undefined
          else makeListType listType (take (unat i) listData @ elementValue # drop (unat i) listData) s1
      | _ \<Rightarrow> Undefined)))))"

definition removeBuiltin :: "Token \<Rightarrow> string list \<Rightarrow> Environment \<Rightarrow> Store \<Rightarrow> Outcome" where
  "removeBuiltin token parameterNames environment s =
     (case getArgumentValue 0 parameterNames environment of
        None \<Rightarrow> OutOfRange
      | Some listValue \<Rightarrow>
     (case listValueAt s listValue of
        None \<Rightarrow> Undefined
      | Some (listType, listData) \<Rightarrow>
          if listData = [] then reportError token ''Error: Cannot remove from empty list: '' s
          else
     (case getArgumentValue 1 parameterNames environment of
        None \<Rightarrow> OutOfRange
      | Some indexValue \<Rightarrow>
     (case intValueAt s indexValue of
        None \<Rightarrow> Undefined
      | Some (_, i) \<Rightarrow>
          if unat i \<ge> length listData then reportError token errorOutOfBounds s
          else makeListType listType (take (unat i) listData @ drop (Suc (unat i)) listData) s))))"

definition replaceBuiltin :: "Token \<Rightarrow> string list \<Rightarrow> Environment \<Rightarrow> Store \<Rightarrow> Outcome" where
  "replaceBuiltin token parameterNames environment s =
     (case getArgumentValue 0 parameterNames environment of
        None \<Rightarrow> OutOfRange
      | Some listValue \<Rightarrow>
     (case listValueAt s listValue of
        None \<Rightarrow> Undefined
      | Some (_, listData0) \<Rightarrow>
          if listData0 = []
          then reportError token ''Error: Cannot replace with element in empty list: '' s
          else
     (case getArgumentValue 2 parameterNames environment of
        None \<Rightarrow> OutOfRange
      | Some indexValue \<Rightarrow>
     (case intValueAt s indexValue of
        None \<Rightarrow> Undefined
      | Some (_, i) \<Rightarrow>
          if unat i \<ge> length listData0 then reportError token errorOutOfBounds s
          else
     (case getArgumentValue 1 parameterNames environment of
        None \<Rightarrow> OutOfRange
      | Some elementValue \<Rightarrow>
     (case compareElementType elementValue listValue s of
        None \<Rightarrow> Undefined
      | Some (b, s1) \<Rightarrow>
          if \<not> b then reportError token errorElementType s1
          else
     (case listValueAt s1 listValue of
        None \<Rightarrow> Undefined
      | Some (listType, listData) \<Rightarrow>
          makeListType listType (listData[unat i := elementValue]) s1)))))))"

definition pushFrontBuiltin :: "Token \<Rightarrow> string list \<Rightarrow> Environment \<Rightarrow> Store \<Rightarrow> Outcome" where
  "pushFrontBuiltin token parameterNames environment s =
     (case getArgumentValue 0 parameterNames environment of
        None \<Rightarrow> OutOfRange
      | Some listValue \<Rightarrow>
     (case getArgumentValue 1 parameterNames environment of
        None \<Rightarrow> OutOfRange
      | Some elementValue \<Rightarrow>
     (case compareElementType elementValue listValue s of
        None \<Rightarrow> Undefined
      | Some (b, s1) \<Rightarrow>
          if \<not> b then reportError token errorElementType s1
          else
     (case listValueAt s1 listValue of
        None \<Rightarrow> Undefined
      | Some (listType, listData) \<Rightarrow> makeListType listType (elementValue # listData) s1))))"

definition pushBackBuiltin :: "Token \<Rightarrow> string list \<Rightarrow> Environment \<Rightarrow> Store \<Rightarrow> Outcome" where
  "pushBackBuiltin token parameterNames environment s =
     (case getArgumentValue 0 parameterNames environment of
        None \<Rightarrow> OutOfRange
      | Some listValue \<Rightarrow>
     (case getArgumentValue 1 parameterNames environment of
        None \<Rightarrow> OutOfRange
      | Some elementValue \<Rightarrow>
     (case compareElementType elementValue listValue s of
        None \<Rightarrow> Undefined
      | Some (b, s1) \<Rightarrow>
          if \<not> b then reportError token errorElementType s1
          else
     (case listValueAt s1 listValue of
        None \<Rightarrow> Undefined
      | Some (listType, listData) \<Rightarrow> makeListType listType (listData @ [elementValue]) s1))))"

definition insertInPlaceBuiltin :: "Token \<Rightarrow> string list \<Rightarrow> Environment \<Rightarrow> Store \<Rightarrow> Outcome" where
  "insertInPlaceBuiltin token parameterNames environment s =
     (case getArgumentValue 0 parameterNames environment of
        None \<Rightarrow> OutOfRange
      | Some listValue \<Rightarrow>
     (case getArgumentValue 1 parameterNames environment of
        None \<Rightarrow> OutOfRange
      | Some elementValue \<Rightarrow>
     (case compareElementType elementValue listValue s of
        None \<Rightarrow> Undefined
      | Some (b, s1) \<Rightarrow>
          if \<not> b then reportError token errorElementType s1
          else
     (case getArgumentValue 2 parameterNames environment of
        None \<Rightarrow> OutOfRange
      | Some indexValue \<Rightarrow>
     (case (intValueAt s1 indexValue, listValueAt s1 listValue) of
        (Some (_, i), Some (listType, listData)) \<Rightarrow>
          if listData \<noteq> [] \<and> unat i \<ge> length listData then reportError token errorOutOfBounds s1
          else if unat i > length listData then Undefined
          else Returned listValue
                 (assignListData listValue
                    (take (unat i) listData @ elementValue # drop (unat i) listData) s1)
      | _ \<Rightarrow> Undefined)))))"

definition removeInPlaceBuiltin :: "Token \<Rightarrow> string list \<Rightarrow> Environment \<Rightarrow> Store \<Rightarrow> Outcome" where
  "removeInPlaceBuiltin token parameterNames environment s =
     (case getArgumentValue 0 parameterNames environment of
        None \<Rightarrow> OutOfRange
      | Some listValue \<Rightarrow>
     (case listValueAt s listValue of
        None \<Rightarrow> Undefined
      | Some (listType, listData) \<Rightarrow>
          if listData = [] then reportError token ''Error: Cannot remove from empty list: '' s
          else
     (case getArgumentValue 1 parameterNames environment of
        None \<Rightarrow> OutOfRange
      | Some indexValue \<Rightarrow>
     (case intValueAt s indexValue of
        None \<Rightarrow> Undefined
      | Some (_, i) \<Rightarrow>
          if unat i \<ge> length listData then reportError token errorOutOfBounds s
          else Returned listValue
                 (assignListData listValue (take (unat i) listData @ drop (Suc (unat i)) listData) s)))))"

definition replaceInPlaceBuiltin :: "Token \<Rightarrow> string list \<Rightarrow> Environment \<Rightarrow> Store \<Rightarrow> Outcome" where
  "replaceInPlaceBuiltin token parameterNames environment s =
     (case getArgumentValue 0 parameterNames environment of
        None \<Rightarrow> OutOfRange
      | Some listValue \<Rightarrow>
     (case listValueAt s listValue of
        None \<Rightarrow> Undefined
      | Some (_, listData0) \<Rightarrow>
          if listData0 = []
          then reportError token ''Error: Cannot replace with element in empty list: '' s
          else
     (case getArgumentValue 2 parameterNames environment of
        None \<Rightarrow> OutOfRange
      | Some indexValue \<Rightarrow>
     (case intValueAt s indexValue of
        None \<Rightarrow> Undefined
      | Some (_, i) \<Rightarrow>
          if unat i \<ge> length listData0 then reportError token errorOutOfBounds s
          else
     (case getArgumentValue 1 parameterNames environment of
        None \<Rightarrow> OutOfRange
      | Some elementValue \<Rightarrow>
     (case compareElementType elementValue listValue s of
        None \<Rightarrow> Undefined
      | Some (b, s1) \<Rightarrow>
          if \<not> b then reportError token errorElementType s1
          else
     (case listValueAt s1 listValue of
        None \<Rightarrow> Undefined
      | Some (listType, listData) \<Rightarrow>
          Returned listValue (assignListData listValue (listData[unat i := elementValue]) s1))))))))"

definition errorEmptySublist :: string where
  "errorEmptySublist = ''Error: Cannot get sublist from empty list: ''"

definition headBuiltin :: "Token \<Rightarrow> string list \<Rightarrow> Environment \<Rightarrow> Store \<Rightarrow> Outcome" where
  "headBuiltin token parameterNames environment s =
     (case getArgumentValue 0 parameterNames environment of
        None \<Rightarrow> OutOfRange
      | Some listValue \<Rightarrow>
     (case listValueAt s listValue of
        None \<Rightarrow> Undefined
      | Some (listType, listData) \<Rightarrow>
          if listData = [] then reportError token errorEmptySublist s
          else makeListType listType (butlast listData) s))"

definition tailBuiltin :: "Token \<Rightarrow> string list \<Rightarrow> Environment \<Rightarrow> Store \<Rightarrow> Outcome" where
  "tailBuiltin token parameterNames environment s =
     (case getArgumentValue 0 parameterNames environment of
        None \<Rightarrow> OutOfRange
      | Some listValue \<Rightarrow>
     (case listValueAt s listValue of
        None \<Rightarrow> Undefined
      | Some (listType, listData) \<Rightarrow>
          if listData = [] then reportError token errorEmptySublist s
          else makeListType listType (tl listData) s))"

text \<open>
  \<open>combine\<close> compares the types of the two lists with
  \<open>listValue1->type->compare(listValue2->type)\<close>.
\<close>

definition combineBuiltin :: "Token \<Rightarrow> string list \<Rightarrow> Environment \<Rightarrow> Store \<Rightarrow> Outcome" where
  "combineBuiltin token parameterNames environment s =
     (case getArgumentValue 0 parameterNames environment of
        None \<Rightarrow> OutOfRange
      | Some listValue1 \<Rightarrow>
     (case getArgumentValue 1 parameterNames environment of
        None \<Rightarrow> OutOfRange
      | Some listValue2 \<Rightarrow>
     (case (listValueAt s listValue1, listValueAt s listValue2) of
        (Some (Some type1, _), Some (type2, _)) \<Rightarrow>
          (case compare type1 type2 of
             None \<Rightarrow> Undefined
           | Some (b, type1', type2') \<Rightarrow>
               (let s1 = assignType listValue2 type2' (assignType listValue1 (Some type1') s)
                in if \<not> b then reportError token ''Error: List types must match: '' s1
                   else (case (listValueAt s1 listValue1, listValueAt s1 listValue2) of
                           (Some (listType, listData1), Some (_, listData2)) \<Rightarrow>
                             makeListType listType (listData1 @ listData2) s1
                         | _ \<Rightarrow> Undefined)))
      | _ \<Rightarrow> Undefined)))"

text \<open>
  \<open>range\<close>. The indices are converted to \<open>unsigned int\<close> (\<open>unat\<close> of the 32-bit word)
  before they are tested; the tests \<open>startIndex < 0\<close> and \<open>endIndex < 0\<close> of the source
  are tests on unsigned numbers and never hold. The loop
  \<open>for (index = startIndex; index <= endIndex; ++index)\<close> collects \<open>listData.at(index)\<close>;
  with \<open>endIndex\<close> the largest \<open>unsigned int\<close> its condition holds for every \<open>index\<close>
  and the loop does not end.
\<close>

text \<open>
  The tests \<open>startValue->type->compare(std::make_shared<Types::IntType>())\<close> and
  \<open>endValue->type->compare(...)\<close> read the field \<open>type\<close>, which a value object of
  every class has: an index that is not an integer is reported as an error. The field
  \<open>data\<close> is read only after both tests have passed.
\<close>

definition compareWithInt :: "ValuePtr \<Rightarrow> Store \<Rightarrow> (bool \<times> Store) option" where
  "compareWithInt p s =
     (case objects s p of
        None \<Rightarrow> None
      | Some v \<Rightarrow>
          (case valueType v of
             None \<Rightarrow> None
           | Some ty \<Rightarrow>
               (case compare ty (Some newIntType) of
                  None \<Rightarrow> None
                | Some (b, ty', _) \<Rightarrow> Some (b, assignType p (Some ty') s))))"

definition rangeBuiltin :: "Token \<Rightarrow> string list \<Rightarrow> Environment \<Rightarrow> Store \<Rightarrow> Outcome" where
  "rangeBuiltin token parameterNames environment s =
     (case getArgumentValue 0 parameterNames environment of
        None \<Rightarrow> OutOfRange
      | Some listValue \<Rightarrow>
     (case getArgumentValue 1 parameterNames environment of
        None \<Rightarrow> OutOfRange
      | Some startValue \<Rightarrow>
     (case getArgumentValue 2 parameterNames environment of
        None \<Rightarrow> OutOfRange
      | Some endValue \<Rightarrow>
     (case listValueAt s listValue of
        None \<Rightarrow> Undefined
      | Some (_, listData0) \<Rightarrow>
          if listData0 = [] then reportError token errorEmptySublist s
          else
     (case compareWithInt startValue s of
        None \<Rightarrow> Undefined
      | Some (b1, s1) \<Rightarrow>
          if \<not> b1 then reportError token ''Error: Start range index must be integer type: '' s1
          else
     (case compareWithInt endValue s1 of
        None \<Rightarrow> Undefined
      | Some (b2, s2) \<Rightarrow>
          if \<not> b2 then reportError token ''Error: End range index must be integer type: '' s2
          else
     (case (intValueAt s2 startValue, intValueAt s2 endValue, listValueAt s2 listValue) of
        (Some (_, startData), Some (_, endData), Some (listType, listData)) \<Rightarrow>
          (let startIndex = unat startData; endIndex = unat endData
           in if startIndex > endIndex \<or> startIndex \<ge> length listData \<or> endIndex \<ge> length listData
              then reportError token ''Error: Invalid range: '' s2
              else if endIndex = 2 ^ 32 - 1 then Diverged
              else makeListType listType (map (\<lambda>index. listData ! index) [startIndex..<Suc endIndex]) s2)
      | _ \<Rightarrow> Undefined)))))))"

text \<open>
  \<open>stringToCharList\<close> makes one \<open>CharValue\<close> for each character, in order, and then the
  list of them; \<open>charListToString\<close> appends the character of each element.
\<close>

fun makeCharValues :: "string \<Rightarrow> Store \<Rightarrow> ValuePtr list \<times> Store" where
  "makeCharValues [] s = ([], s)"
| "makeCharValues (character # cs) s =
     (case make_shared (CharValue (Some newCharType) character) s of
        (p, s1) \<Rightarrow> (case makeCharValues cs s1 of (ps, s2) \<Rightarrow> (p # ps, s2)))"

definition stringToCharListBuiltin :: "string list \<Rightarrow> Environment \<Rightarrow> Store \<Rightarrow> Outcome" where
  "stringToCharListBuiltin parameterNames environment s =
     (case getArgumentValue 0 parameterNames environment of
        None \<Rightarrow> OutOfRange
      | Some stringArgument \<Rightarrow>
     (case stringValueAt s stringArgument of
        None \<Rightarrow> Undefined
      | Some stringValue \<Rightarrow>
          (case makeCharValues stringValue s of
             (listData, s1) \<Rightarrow>
               (case make_shared (ListValue (Some (newListType (Some newCharType))) listData) s1 of
                  (p, s2) \<Rightarrow> Returned p s2))))"

fun appendCharacters :: "Store \<Rightarrow> ValuePtr list \<Rightarrow> string option" where
  "appendCharacters s [] = Some []"
| "appendCharacters s (v # vs) =
     (case charValueAt s v of
        None \<Rightarrow> None
      | Some c \<Rightarrow> (case appendCharacters s vs of None \<Rightarrow> None | Some str \<Rightarrow> Some (c # str)))"

definition charListToStringBuiltin :: "string list \<Rightarrow> Environment \<Rightarrow> Store \<Rightarrow> Outcome" where
  "charListToStringBuiltin parameterNames environment s =
     (case getArgumentValue 0 parameterNames environment of
        None \<Rightarrow> OutOfRange
      | Some listValue \<Rightarrow>
     (case listValueAt s listValue of
        None \<Rightarrow> Undefined
      | Some (_, listData) \<Rightarrow>
          (case appendCharacters s listData of
             None \<Rightarrow> Undefined
           | Some stringValue \<Rightarrow>
               (case make_shared (StringValue (Some newStringType) stringValue) s of
                  (p, s1) \<Rightarrow> Returned p s1))))"

section \<open>The environments of functions (interpreter.cpp, typeChecker.cpp)\<close>

text \<open>
  \<open>addName(environment, name, value)\<close> of the interpreter and of the checker: the entry
  of the name, if there is one, is erased, and the new entry inserted. A \<open>std::map\<close> from
  names is a map \<open>string \<rightharpoonup> 'a\<close>.
\<close>

definition addName :: "('a \<Rightarrow> 'b option) \<Rightarrow> 'a \<Rightarrow> 'b \<Rightarrow> ('a \<Rightarrow> 'b option)" where
  "addName environment n v = (environment(n := None))(n \<mapsto> v)"

subsection \<open>\<open>Interpreter::interpretProgram\<close>\<close>



subsection \<open>The environment of a call (\<open>Interpreter::interpretApplication\<close>)\<close>




subsection \<open>\<open>TypeChecker::evalProgram\<close>\<close>

text \<open>
  The environments of the checker share the type objects of the declarations, so a type
  pointer in them is the address of a type object in a store of type objects. The first
  loop binds every function name to its type. The second loop builds, for each function,
  its inner environment: a copy of the environment without the name of the function (the
  empty map for a built-in), to which the generic parameters that are not yet bound and
  then the value parameters are added; the result is stored in the \<open>FuncType\<close> object.
  \<open>None\<close> is undefined behaviour: an address without object, an object of another
  class than the cast expects, or the dereferenced \<open>end()\<close> of a failed \<open>find\<close>.
\<close>

type_synonym TypeStore = "nat \<Rightarrow> Type option"
type_synonym TypeEnvironment = "string \<Rightarrow> nat option"

fun bindFunctionNames :: "nat Function list \<Rightarrow> TypeEnvironment \<Rightarrow> TypeEnvironment" where
  "bindFunctionNames [] environment = environment"
| "bindFunctionNames (function # fs) environment =
     bindFunctionNames fs (addName environment (name function) (functionType function))"

fun addGenericParameters :: "TypeStore \<Rightarrow> nat list \<Rightarrow> TypeEnvironment \<Rightarrow> TypeEnvironment option" where
  "addGenericParameters types [] inner = Some inner"
| "addGenericParameters types (genericParameter # gs) inner =
     (case types genericParameter of
        Some (GenType d identifier) \<Rightarrow>
          addGenericParameters types gs
            (if inner identifier = None then addName inner identifier genericParameter else inner)
      | _ \<Rightarrow> None)"

fun addParameters :: "TypeStore \<Rightarrow> (string \<times> nat) list \<Rightarrow> TypeEnvironment \<Rightarrow> TypeEnvironment option" where
  "addParameters types [] inner = Some inner"
| "addParameters types ((parameterName, parameterType) # ps) inner =
     (case types parameterType of
        None \<Rightarrow> None
      | Some ty \<Rightarrow>
          if dataType ty = GEN_tag
          then (case ty of
                  GenType d identifier \<Rightarrow>
                    (case inner identifier of
                       None \<Rightarrow> None
                     | Some realType \<Rightarrow> addParameters types ps (addName inner parameterName realType))
                | _ \<Rightarrow> None)
          else addParameters types ps (addName inner parameterName parameterType))"

definition setIsBuiltin :: "nat \<Rightarrow> TypeStore \<Rightarrow> TypeStore option" where
  "setIsBuiltin p types =
     (case types p of
        Some (FuncType d gs args ns r b e bi) \<Rightarrow> Some (types(p \<mapsto> FuncType d gs args ns r b e True))
      | _ \<Rightarrow> None)"

definition setFunctionInnerEnvironment :: "nat \<Rightarrow> TypeEnvironment \<Rightarrow> TypeStore \<Rightarrow> TypeStore option" where
  "setFunctionInnerEnvironment p inner types =
     (case types p of
        Some (FuncType d gs args ns r b e bi) \<Rightarrow>
          Some (types(p \<mapsto> FuncType d gs args ns r b (Some inner) bi))
      | _ \<Rightarrow> None)"

definition buildInnerEnvironment ::
  "(string \<Rightarrow> bool) \<Rightarrow> TypeEnvironment \<Rightarrow> nat Function \<Rightarrow> TypeStore \<Rightarrow> (nat Function \<times> TypeStore) option" where
  "buildInnerEnvironment isBuiltinName environment function types =
     (case (if isBuiltinName (name function)
            then map_option (Pair (function\<lparr>isBuiltin := True\<rparr>)) (setIsBuiltin (functionType function) types)
            else Some (function, types)) of
        None \<Rightarrow> None
      | Some (function1, types1) \<Rightarrow>
          (case addGenericParameters types1 (genericParameters function1)
                  (if \<not> isBuiltin function1 then environment(name function1 := None) else Map.empty) of
             None \<Rightarrow> None
           | Some inner1 \<Rightarrow>
               (case addParameters types1 (parameters function1) inner1 of
                  None \<Rightarrow> None
                | Some functionInnerEnvironment \<Rightarrow>
                    map_option (Pair function1)
                      (setFunctionInnerEnvironment (functionType function1)
                         functionInnerEnvironment types1))))"

fun buildInnerEnvironments ::
  "(string \<Rightarrow> bool) \<Rightarrow> TypeEnvironment \<Rightarrow> nat Function list \<Rightarrow> TypeStore
     \<Rightarrow> (nat Function list \<times> TypeStore) option" where
  "buildInnerEnvironments isBuiltinName environment [] types = Some ([], types)"
| "buildInnerEnvironments isBuiltinName environment (function # fs) types =
     (case buildInnerEnvironment isBuiltinName environment function types of
        None \<Rightarrow> None
      | Some (function', types1) \<Rightarrow>
          (case buildInnerEnvironments isBuiltinName environment fs types1 of
             None \<Rightarrow> None
           | Some (fs', types2) \<Rightarrow> Some (function' # fs', types2)))"

definition evalProgram_functions ::
  "(string \<Rightarrow> bool) \<Rightarrow> nat Program \<Rightarrow> TypeEnvironment \<Rightarrow> TypeStore
     \<Rightarrow> (TypeEnvironment \<times> nat Function list \<times> TypeStore) option" where
  "evalProgram_functions isBuiltinName program environment types =
     (let environment1 = bindFunctionNames (functions' program) environment
      in case buildInnerEnvironments isBuiltinName environment1 (functions' program) types of
           None \<Rightarrow> None
         | Some (fs, types') \<Rightarrow> Some (environment1, fs, types'))"






section \<open>The import pre-processor (parser.cpp)\<close>

text \<open>
  \<open>Parser::preprocessImports\<close> and \<open>Parser::parseImport\<close> work on the member
  \<open>tokenStream\<close>, which is passed and returned here. Reading and lexing a file
  (\<open>Lexer::readFile\<close> on the name with the extension \<open>.bnt\<close>, the appended \<open>;\<close> and
  \<open>Lexer::makeTokenStream\<close>) is the parameter \<open>files\<close>: it gives, for a file name, the
  tokens of that file, and no tokens for a file that is missing or empty.

  An access \<open>tokenStream.at(i)\<close> past the end throws \<open>std::out_of_range\<close>:
  \<open>OutOfRangeException\<close>. Both loops of \<open>preprocessImports\<close> may run forever, so they
  are partial functions, with \<open>None\<close> for a run that does not end. The index is a
  natural number; the 32-bit counter of the source differs from it only on streams of
  \<open>2^32\<close> tokens or more, on which the loop of the source cannot end.
\<close>

datatype 'a ImportResult = Finished 'a | OutOfRangeException

text \<open>
  The \<open>while\<close> loop of \<open>parseImport\<close>, on the tokens from \<open>tokenIndex\<close> on: as long as
  the next token is \<open>/\<close>, it and the token after it are erased and appended to the file
  name.
\<close>

fun pathSegments :: "string \<Rightarrow> Token list \<Rightarrow> (string \<times> Token list) option" where
  "pathSegments sourceFileName [] = None"
| "pathSegments sourceFileName (t # ts) =
     (if text' t = ''/''
      then (case ts of
              [] \<Rightarrow> None
            | segment # ts' \<Rightarrow> pathSegments (sourceFileName @ ''/'' @ text' segment) ts')
      else Some (sourceFileName, t # ts))"

text \<open>
  \<open>parseImport(tokenIndex)\<close> erases the token \<open>import\<close>, the file name and the path
  segments, and returns the tokens of the file; the second component is the token stream
  it leaves.
\<close>

definition parseImport :: "(string \<Rightarrow> Token list) \<Rightarrow> nat \<Rightarrow> Token list \<Rightarrow> (Token list \<times> Token list) option" where
  "parseImport files tokenIndex tokenStream =
     (case drop (Suc tokenIndex) tokenStream of
        [] \<Rightarrow> None
      | fileNameToken # rest \<Rightarrow>
          (case pathSegments (text' fileNameToken) rest of
             None \<Rightarrow> None
           | Some (sourceFileName, rest') \<Rightarrow>
               Some (files (sourceFileName @ ''.bnt''), take tokenIndex tokenStream @ rest')))"

text \<open>
  The \<open>for\<close> loop of \<open>preprocessImports\<close>, from \<open>tokenIndex\<close> on, with the flag
  \<open>importing\<close>; the new tokens are inserted at \<open>tokenIndex\<close>, and the loop goes on
  behind the first of them.
\<close>

partial_function (option) scanImports ::
  "(string \<Rightarrow> Token list) \<Rightarrow> nat \<Rightarrow> bool \<Rightarrow> Token list \<Rightarrow> (bool \<times> Token list) ImportResult option" where
  "scanImports files tokenIndex importing tokenStream =
     (if tokenIndex < length tokenStream
      then (if text' (tokenStream ! tokenIndex) = ''import''
            then (case parseImport files tokenIndex tokenStream of
                    None \<Rightarrow> Some OutOfRangeException
                  | Some (newStream, tokenStream') \<Rightarrow>
                      scanImports files (Suc tokenIndex) True
                        (take tokenIndex tokenStream' @ newStream @ drop tokenIndex tokenStream'))
            else scanImports files (Suc tokenIndex) importing tokenStream)
      else Some (Finished (importing, tokenStream)))"

text \<open>The \<open>do ... while (importing)\<close> loop.\<close>

partial_function (option) preprocessImports ::
  "(string \<Rightarrow> Token list) \<Rightarrow> Token list \<Rightarrow> Token list ImportResult option" where
  "preprocessImports files tokenStream =
     (case scanImports files 0 False tokenStream of
        None \<Rightarrow> None
      | Some OutOfRangeException \<Rightarrow> Some OutOfRangeException
      | Some (Finished (importing, tokenStream')) \<Rightarrow>
          if importing then preprocessImports files tokenStream' else Some (Finished tokenStream'))"


text \<open>
  Two file systems for the examples. In the first, the file \<open>a.bnt\<close> is \<open>import a;\<close>. In
  the second, \<open>a.bnt\<close> is \<open>x import lib/b;\<close> and \<open>lib/b.bnt\<close> is \<open>y;\<close>.
\<close>

definition mkToken :: "TokenType \<Rightarrow> string \<Rightarrow> Token" where
  "mkToken ty txt =
     \<lparr>tokenType = ty, position = \<lparr>fileLine = 1, fileColumn = 1, currentLineText = []\<rparr>, text' = txt\<rparr>"


definition libraryFiles :: "string \<Rightarrow> Token list" where
  "libraryFiles fileName =
     (if fileName = ''a.bnt''
      then [mkToken IDENT ''x'', mkToken KEYWORD ''import'', mkToken IDENT ''lib'', mkToken DELIM ''/'',
            mkToken IDENT ''b'', mkToken DELIM '';'']
      else if fileName = ''lib/b.bnt'' then [mkToken IDENT ''y'', mkToken DELIM '';'']
      else [])"


section \<open>A store for the examples\<close>

text \<open>
  A store with the null value at address 0, the string \<open>"ab"\<close> at 1, the characters
  \<open>'a'\<close> and \<open>'b'\<close> at 2 and 3, the list of these two characters at 4, the integers 1,
  2, 3, 4 and 0 at 5 to 9, and the list \<open>List{1, 2, 3}\<close> at 10.
\<close>

definition exampleToken :: Token where
  "exampleToken =
     \<lparr>tokenType = IDENT,
      position = \<lparr>fileLine = 1, fileColumn = 1, currentLineText = ''pushBack(xs, 4)''\<rparr>,
      text' = ''pushBack''\<rparr>"

definition exampleStore :: Store where
  "exampleStore =
     \<lparr>objects = [0 \<mapsto> NullValue (Some newNullType),
                 1 \<mapsto> StringValue (Some newStringType) ''ab'',
                 2 \<mapsto> CharValue (Some newCharType) CHR ''a'',
                 3 \<mapsto> CharValue (Some newCharType) CHR ''b'',
                 4 \<mapsto> ListValue (Some (newListType (Some newCharType))) [2, 3],
                 5 \<mapsto> IntValue (Some newIntType) 1,
                 6 \<mapsto> IntValue (Some newIntType) 2,
                 7 \<mapsto> IntValue (Some newIntType) 3,
                 8 \<mapsto> IntValue (Some newIntType) 4,
                 9 \<mapsto> IntValue (Some newIntType) 0,
                 10 \<mapsto> ListValue (Some (newListType (Some newIntType))) [5, 6, 7]],
      nextValue = 11, error = False, diagnostics = []\<rparr>"

text \<open>
  A store with a list of \<open>2^32 - 1\<close> elements at address 2, all of them the integer 7 at
  address 1, and the integer \<open>-2\<close> at address 3.
\<close>

definition hugeStore :: Store where
  "hugeStore =
     \<lparr>objects = [0 \<mapsto> NullValue (Some newNullType),
                 1 \<mapsto> IntValue (Some newIntType) 7,
                 2 \<mapsto> ListValue (Some (newListType (Some newIntType))) (replicate 4294967295 1),
                 3 \<mapsto> IntValue (Some newIntType) (- 2)],
      nextValue = 4, error = False, diagnostics = []\<rparr>"

text \<open>
  A store with the empty list \<open>List[int]\<close> at address 3 and the integers 4, 5 and 0 at
  the addresses 1, 2 and 4.
\<close>

definition emptyListStore :: Store where
  "emptyListStore =
     \<lparr>objects = [0 \<mapsto> NullValue (Some newNullType),
                 1 \<mapsto> IntValue (Some newIntType) 4,
                 2 \<mapsto> IntValue (Some newIntType) 5,
                 3 \<mapsto> ListValue (Some (newListType (Some newIntType))) [],
                 4 \<mapsto> IntValue (Some newIntType) 0],
      nextValue = 5, error = False, diagnostics = []\<rparr>"

section \<open>The type checker on expressions (typeChecker.cpp)\<close>

text \<open>
  The state of the checker that the functions below change: the latch \<open>error\<close> and the
  diagnostics printed (\<open>printMismatchError\<close> with the two types, \<open>printError\<close> with its
  message), in order.
\<close>

datatype Diagnostic = MismatchedType Token TypePtr TypePtr | ErrorMessage Token string

record CheckerState =
  typeError :: bool
  typeDiagnostics :: "Diagnostic list"

definition printMismatchError :: "Token \<Rightarrow> TypePtr \<Rightarrow> TypePtr \<Rightarrow> CheckerState \<Rightarrow> CheckerState" where
  "printMismatchError token ty expectedType st =
     st\<lparr>typeError := True, typeDiagnostics := typeDiagnostics st @ [MismatchedType token ty expectedType]\<rparr>"

definition printTypeError :: "Token \<Rightarrow> string \<Rightarrow> CheckerState \<Rightarrow> CheckerState" where
  "printTypeError token errorMessage st =
     st\<lparr>typeError := True, typeDiagnostics := typeDiagnostics st @ [ErrorMessage token errorMessage]\<rparr>"

definition isPrimitiveType :: "TypePtr \<Rightarrow> bool option" where
  "isPrimitiveType ty =
     (case ty of
        None \<Rightarrow> None
      | Some t \<Rightarrow> Some (dataType t = INT_tag \<or> dataType t = CHAR_tag \<or> dataType t = STRING_tag \<or>
                        dataType t = BOOL_tag \<or> dataType t = GEN_tag))"

text \<open>
  The predicates \<open>Operator::isUnaryOperator\<close>, \<open>Operator::isBinaryBooleanOperator\<close> and
  \<open>Operator::isArithmeticOperator\<close> are not in the sources: they are parameters of the
  checker.
\<close>

record OperatorClasses =
  isUnaryOperator :: "OperatorTypes \<Rightarrow> bool"
  isBinaryBooleanOperator :: "OperatorTypes \<Rightarrow> bool"
  isArithmeticOperator :: "OperatorTypes \<Rightarrow> bool"

text \<open>
  \<open>eval(expression, environment, expectedType)\<close> on the nodes \<open>End\<close>, \<open>Literal\<close>,
  \<open>Primitive\<close> and \<open>Branch\<close>. The call assigns to the slots \<open>returnType\<close> of the nodes
  and, through the reference, to the caller's \<open>expectedType\<close>; it returns a pointer to a
  node. The model returns the expression after the call, the node the returned pointer
  leads to, the expected type after the call and the state; \<open>None\<close> is undefined
  behaviour (a null type pointer is read). Types are held by value, which is exact here as
  long as \<open>compare\<close> assigns to no type object that two pointers share: on the types of
  literals it assigns to none. The environment is passed on and not read by these nodes.

  \<open>evalPrimitive\<close> creates a temporary expected type (\<open>Bool\<close>, \<open>Int\<close> or \<open>Unknown\<close>),
  checks its operands against it one after the other and sets its own \<open>returnType\<close>; it
  does not read \<open>expectedType\<close>. \<open>evalBranch\<close> checks the condition against a temporary
  \<open>Bool\<close>, the else branch against \<open>expectedType\<close>, and the then branch against the local
  copy \<open>elseType\<close> of the \<open>returnType\<close> of the node that the check of the else branch
  returned; it returns what the check of the then branch returns.
\<close>

type_synonym EvalResult = "(Expression \<times> Expression \<times> TypePtr \<times> CheckerState) option"

definition evalLiteral :: "Token \<Rightarrow> TypePtr \<Rightarrow> LiteralData \<Rightarrow> TypePtr \<Rightarrow> CheckerState \<Rightarrow> EvalResult" where
  "evalLiteral token literalType d expectedType st =
     (case TypeChecker_compare literalType expectedType of
        None \<Rightarrow> None
      | Some (b, literalType', expectedType') \<Rightarrow>
          Some (Literal token literalType' d, Literal token literalType' d, expectedType',
                if b then st else printMismatchError token literalType' expectedType' st))"

fun eval :: "OperatorClasses \<Rightarrow> Expression \<Rightarrow> (string \<Rightarrow> nat option) \<Rightarrow> TypePtr \<Rightarrow> CheckerState \<Rightarrow> EvalResult" where
  "eval ops End environment expectedType st = Some (End, End, expectedType, st)"
| "eval ops (Literal token literalType d) environment expectedType st =
     evalLiteral token literalType d expectedType st"
| "eval ops (Primitive token rt oper leftSide rightSide) environment expectedType st =
     (if isUnaryOperator ops oper
      then (if oper = NOT_op
            then (case eval ops rightSide environment (Some newBoolType) st of
                    None \<Rightarrow> None
                  | Some (rightSide', _, _, st1) \<Rightarrow>
                      Some (Primitive token (Some newBoolType) oper leftSide rightSide',
                            Primitive token (Some newBoolType) oper leftSide rightSide',
                            expectedType, st1))
            else if oper = PLUS_op \<or> oper = MINUS_op
            then (case eval ops rightSide environment (Some newIntType) st of
                    None \<Rightarrow> None
                  | Some (rightSide', _, _, st1) \<Rightarrow>
                      Some (Primitive token (Some newIntType) oper leftSide rightSide',
                            Primitive token (Some newIntType) oper leftSide rightSide',
                            expectedType, st1))
            else Some (Primitive token rt oper leftSide rightSide,
                       Primitive token rt oper leftSide rightSide, expectedType, st))
      else if isBinaryBooleanOperator ops oper \<or> isArithmeticOperator ops oper
      then (if oper = AND_op \<or> oper = OR_op
            then (case eval ops leftSide environment (Some newBoolType) st of
                    None \<Rightarrow> None
                  | Some (leftSide', _, temp1, st1) \<Rightarrow>
                      (case eval ops rightSide environment temp1 st1 of
                         None \<Rightarrow> None
                       | Some (rightSide', _, _, st2) \<Rightarrow>
                           Some (Primitive token (Some newBoolType) oper leftSide' rightSide',
                                 Primitive token (Some newBoolType) oper leftSide' rightSide',
                                 expectedType, st2)))
            else if isArithmeticOperator ops oper
            then (case eval ops leftSide environment (Some newIntType) st of
                    None \<Rightarrow> None
                  | Some (leftSide', _, temp1, st1) \<Rightarrow>
                      (case eval ops rightSide environment temp1 st1 of
                         None \<Rightarrow> None
                       | Some (rightSide', _, _, st2) \<Rightarrow>
                           Some (Primitive token (Some newIntType) oper leftSide' rightSide',
                                 Primitive token (Some newIntType) oper leftSide' rightSide',
                                 expectedType, st2)))
            else (case eval ops leftSide environment (Some newUnknownType) st of
                    None \<Rightarrow> None
                  | Some (leftSide', _, temp1, st1) \<Rightarrow>
                      (case isPrimitiveType (returnType leftSide') of
                         None \<Rightarrow> None
                       | Some primitive \<Rightarrow>
                           (case eval ops rightSide environment temp1
                                   (if primitive then st1
                                    else printTypeError token
                                           ''Binary operators can only be used on primitive types'' st1) of
                              None \<Rightarrow> None
                            | Some (rightSide', _, _, st2) \<Rightarrow>
                                Some (Primitive token (Some newBoolType) oper leftSide' rightSide',
                                      Primitive token (Some newBoolType) oper leftSide' rightSide',
                                      expectedType, st2)))))
      else Some (Primitive token rt oper leftSide rightSide,
                 Primitive token rt oper leftSide rightSide, expectedType, st))"
| "eval ops (Branch token rt condition ifBranch elseBranch) environment expectedType st =
     (case eval ops condition environment (Some newBoolType) st of
        None \<Rightarrow> None
      | Some (condition', _, _, st1) \<Rightarrow>
          (case eval ops elseBranch environment expectedType st1 of
             None \<Rightarrow> None
           | Some (elseBranch', elseResult, expectedType', st2) \<Rightarrow>
               (case eval ops ifBranch environment (returnType elseResult) st2 of
                  None \<Rightarrow> None
                | Some (ifBranch', ifResult, _, st3) \<Rightarrow>
                    Some (Branch token rt condition' ifBranch' elseBranch', ifResult,
                          expectedType', st3))))"


text \<open>
  Modelled from the spec: the classification of the operators (\<open>Operator::isUnaryOperator\<close>
  and the other two predicates are not in the sources), after the comment in
  \<open>evalPrimitive\<close> and the rules of the specification for \<open>Primitive\<close>: \<open>!\<close> is unary,
  \<open>&&\<close>, \<open>||\<close> and the comparisons are boolean operators, \<open>+ - * / %\<close> are
  arithmetic. The expressions are \<open>true\<close>, \<open>1 + 2\<close>, \<open>false\<close> and \<open>1\<close>.
\<close>

definition exampleOperatorClasses :: OperatorClasses where
  "exampleOperatorClasses =
     \<lparr>isUnaryOperator = (\<lambda>oper. oper = NOT_op),
      isBinaryBooleanOperator = (\<lambda>oper. oper \<in> {AND_op, OR_op, GRT_op, LST_op, EQ_op, NOTEQ_op,
                                                   GRTEQ_op, LSTEQ_op}),
      isArithmeticOperator = (\<lambda>oper. oper \<in> {PLUS_op, MINUS_op, TIMES_op, DIV_op, MOD_op})\<rparr>"

definition initialCheckerState :: CheckerState where
  "initialCheckerState = \<lparr>typeError = False, typeDiagnostics = []\<rparr>"

definition exampleCondition :: Expression where
  "exampleCondition = Literal exampleToken (Some newBoolType) (BoolData True)"

definition exampleSum :: Expression where
  "exampleSum =
     Primitive exampleToken (Some newIntType) PLUS_op
       (Literal exampleToken (Some newIntType) (IntData 1))
       (Literal exampleToken (Some newIntType) (IntData 2))"

definition exampleFalse :: Expression where
  "exampleFalse = Literal exampleToken (Some newBoolType) (BoolData False)"

definition exampleOne :: Expression where
  "exampleOne = Literal exampleToken (Some newIntType) (IntData 1)"

section \<open>Relations between stores, for the frame properties\<close>

text \<open>
  \<open>sameData v v'\<close>: the object \<open>v'\<close> is the object \<open>v\<close> up to the field \<open>type\<close> (which
  \<open>compare\<close> may assign to): it is of the same class and has the same data, for a list
  the same sequence of element pointers. \<open>unchanged s s'\<close>: every object of \<open>s\<close> is in
  \<open>s'\<close> at its address, with the same data. \<open>quiet s s'\<close>: moreover nothing was
  allocated and nothing was reported between \<open>s\<close> and \<open>s'\<close>.

  The two ways a built-in that makes a list returns. \<open>errorReported s r s'\<close>: the result is
  the null value, the error latch is set, one message has been printed and nothing was
  allocated. \<open>freshList s r s'\<close>: the result is a list object at an address that held no
  object in \<open>s\<close>, the only address allocated, and nothing was reported.
\<close>

definition sameData :: "Value \<Rightarrow> Value \<Rightarrow> bool" where
  "sameData v v' \<longleftrightarrow> v' = setValueType (valueType v') v"

definition unchanged :: "Store \<Rightarrow> Store \<Rightarrow> bool" where
  "unchanged s s' \<longleftrightarrow> (\<forall>a v. objects s a = Some v \<longrightarrow> (\<exists>v'. objects s' a = Some v' \<and> sameData v v'))"

definition quiet :: "Store \<Rightarrow> Store \<Rightarrow> bool" where
  "quiet s s' \<longleftrightarrow>
     unchanged s s' \<and> nextValue s' = nextValue s \<and> error s' = error s \<and>
     diagnostics s' = diagnostics s \<and> (\<forall>a. (objects s' a = None) = (objects s a = None))"

definition errorReported :: "Store \<Rightarrow> ValuePtr \<Rightarrow> Store \<Rightarrow> bool" where
  "errorReported s r s' \<longleftrightarrow>
     r = nullValue \<and> error s' \<and> (\<exists>m. diagnostics s' = diagnostics s @ [m]) \<and>
     nextValue s' = nextValue s \<and> (\<forall>a. (objects s' a = None) = (objects s a = None))"

definition freshList :: "Store \<Rightarrow> ValuePtr \<Rightarrow> Store \<Rightarrow> bool" where
  "freshList s r s' \<longleftrightarrow>
     objects s r = None \<and> (\<exists>ty ys. objects s' r = Some (ListValue ty ys)) \<and>
     error s' = error s \<and> diagnostics s' = diagnostics s \<and>
     (\<forall>a. a \<noteq> r \<longrightarrow> (objects s' a = None) = (objects s a = None))"

definition nonInPlaceResult :: "Store \<Rightarrow> ValuePtr \<Rightarrow> Store \<Rightarrow> bool" where
  "nonInPlaceResult s r s' \<longleftrightarrow> unchanged s s' \<and> (errorReported s r s' \<or> freshList s r s')"

section \<open>A measure of token streams, for the termination of the import pre-processor\<close>



section \<open>Properties of the types\<close>

lemma concrete_not_UNKNOWN: "concrete t \<Longrightarrow> dataType t \<noteq> UNKNOWN_tag"
  by (cases t) auto

lemma compare_refl_aux:
  "(concrete t \<longrightarrow> compare t (Some t) = Some (True, t, Some t))"
  "(concretePtr p \<longrightarrow> (\<exists>t. p = Some t \<and> concrete t \<and> compare t p = Some (True, t, p)))"
  "(concretePtrs ps \<longrightarrow> compareTupleTypes ps ps = Some (True, ps, ps)
       \<and> compareArgumentTypes ps ps = Some (True, ps, ps))"
proof (induction t and p and ps rule: concrete_concretePtr_concretePtrs.induct)
  case (8 d l)
  then show ?case by (auto simp: concrete_not_UNKNOWN)
next
  case (15 p ps)
  then show ?case by (auto simp: concrete_not_UNKNOWN)
qed (auto simp: Type_compare_def)


text \<open>
  Claim C4. The unification primitive is reflexive on every concrete type: both the
  virtual \<open>compare\<close> and \<open>TypeChecker::compare\<close> answer true on \<open>(t, t)\<close> and leave
  both sides as they are; and \<open>TypeChecker::compare\<close> on an object tagged \<open>UNKNOWN\<close> and
  a concrete type \<open>t\<close> answers true and makes the left pointer point to \<open>t\<close>.
\<close>

theorem compare_reflexive_and_unifies_Unknown:
  "concrete t \<Longrightarrow>
     compare t (Some t) = Some (True, t, Some t) \<and>
     TypeChecker_compare (Some t) (Some t) = Some (True, Some t, Some t) \<and>
     (\<forall>u. dataType u = UNKNOWN_tag \<longrightarrow>
          TypeChecker_compare (Some u) (Some t) = Some (True, Some t, Some t))"
  using compare_refl_aux(1)[of t] concrete_not_UNKNOWN[of t]
  by (simp add: TypeChecker_compare_def)

theorem compare_reflexive_and_unifies_Unknown_witness:
  "concrete (newListType (Some (newTupleType [Some newIntType, Some (newGenType ''T'')]))) \<and>
   compare (newListType (Some (newTupleType [Some newIntType, Some (newGenType ''T'')])))
       (Some (newListType (Some (newTupleType [Some newIntType, Some (newGenType ''T'')]))))
     = Some (True, newListType (Some (newTupleType [Some newIntType, Some (newGenType ''T'')])),
             Some (newListType (Some (newTupleType [Some newIntType, Some (newGenType ''T'')])))) \<and>
   dataType newUnknownType = UNKNOWN_tag \<and>
   TypeChecker_compare (Some newUnknownType)
       (Some (newListType (Some (newTupleType [Some newIntType, Some (newGenType ''T'')]))))
     = Some (True, Some (newListType (Some (newTupleType [Some newIntType, Some (newGenType ''T'')]))),
             Some (newListType (Some (newTupleType [Some newIntType, Some (newGenType ''T'')]))))"
  using compare_reflexive_and_unifies_Unknown
    [of "newListType (Some (newTupleType [Some newIntType, Some (newGenType ''T'')]))"]
  by (simp add: newListType_def newTupleType_def newIntType_def newGenType_def newUnknownType_def)

text \<open>
  Claim C3, as stated, fails: \<open>GenType\<close> has no \<open>compare\<close> of its own and inherits the
  method of the base class, which compares the tags only. \<open>Generic("T")\<close> and
  \<open>Generic("U")\<close> compare equal, under the virtual method and under
  \<open>TypeChecker::compare\<close>.
\<close>

theorem Generic_compare_counterexample:
  "''T'' \<noteq> ''U'' \<and>
   compare (newGenType ''T'') (Some (newGenType ''U''))
     = Some (True, newGenType ''T'', Some (newGenType ''U'')) \<and>
   TypeChecker_compare (Some (newGenType ''T'')) (Some (newGenType ''U''))
     = Some (True, Some (newGenType ''T''), Some (newGenType ''U''))"
  by (simp add: newGenType_def Type_compare_def TypeChecker_compare_def)

text \<open>
  Claim C3, amended. The comparison of two unresolved \<open>Generic\<close> types succeeds whatever
  their names are, and changes neither; a \<open>Generic\<close> on the left compares unequal to
  every object of another variant that is not tagged \<open>UNKNOWN\<close> (so that it can equal a
  concrete type of another variant only once resolution has put that type in its place).
\<close>

theorem Generic_compare_tags_only:
  "compare (newGenType a) (Some (newGenType b)) = Some (True, newGenType a, Some (newGenType b)) \<and>
   (dataType t \<noteq> GEN_tag \<and> dataType t \<noteq> UNKNOWN_tag \<longrightarrow>
      compare (newGenType a) (Some t) = Some (False, newGenType a, Some t) \<and>
      TypeChecker_compare (Some (newGenType a)) (Some t) = Some (False, Some (newGenType a), Some t))"
  by (auto simp: newGenType_def Type_compare_def TypeChecker_compare_def)

theorem Generic_compare_tags_only_witness:
  "compare (newGenType ''T'') (Some (newGenType ''U''))
     = Some (True, newGenType ''T'', Some (newGenType ''U'')) \<and>
   dataType newIntType \<noteq> GEN_tag \<and> dataType newIntType \<noteq> UNKNOWN_tag \<and>
   compare (newGenType ''T'') (Some newIntType) = Some (False, newGenType ''T'', Some newIntType) \<and>
   TypeChecker_compare (Some (newGenType ''T'')) (Some newIntType)
     = Some (False, Some (newGenType ''T''), Some newIntType)"
  using Generic_compare_tags_only [of "''T''" "''U''" newIntType]
  by (simp add: newIntType_def)

section \<open>Properties of the primitive operations\<close>

lemma doOperation_DIV_by_zero:
  "doOperation pt token DIV_op leftSide (IntValue ty 0) = RuntimeError ''Error: Division by zero!''"
  by (simp add: doOperation_def)

text \<open>
  Characters are compared as signed values: the character with the code 128 is below
  \<open>'a'\<close>.
\<close>

lemma doOperation_compares_signed_characters:
  "doOperation CharValue_T token LST_op (CharValue (Some newCharType) (CHR 0x80))
      (CharValue (Some newCharType) CHR ''a'')
     = NewValue (BoolValue (Some newBoolType) True)"
  by (simp add: doOperation_def compareData_def boolResult_def signedChar_def)

text \<open>
  Claim C1 at the input \<open>a % 0\<close>. The branch of \<open>%\<close> has no test of its right operand:
  where \<open>a / 0\<close> reports the runtime error \<open>Division by zero\<close>, \<open>a % 0\<close> evaluates the
  C++ expression \<open>a % 0\<close>, whose behaviour is undefined; no runtime error is reported.
\<close>

theorem doOperation_MOD_by_zero_unchecked:
  "doOperation pt token MOD_op (IntValue ty a) (IntValue ty' 0) = UndefinedOp \<and>
   doOperation pt token DIV_op (IntValue ty a) (IntValue ty' 0)
     = RuntimeError ''Error: Division by zero!''"
  by (simp add: doOperation_def arithmetic_def)

section \<open>Properties of the built-in functions\<close>

lemma appendCharacters_map:
  "appendCharacters s ps = Some cs \<longleftrightarrow> map (charValueAt s) ps = map Some cs"
proof (induction ps arbitrary: cs)
  case Nil
  then show ?case by auto
next
  case (Cons p ps)
  show ?case
  proof (cases cs)
    case Nil
    then show ?thesis by (auto split: option.splits)
  next
    case (Cons c cs')
    with Cons.IH[of cs'] show ?thesis by (auto split: option.splits)
  qed
qed

lemma makeCharValues_spec:
  "makeCharValues cs s = (ps, s') \<Longrightarrow>
     nextValue s' = nextValue s + length cs \<and>
     (\<forall>q. q < nextValue s \<longrightarrow> objects s' q = objects s q) \<and>
     (\<forall>p \<in> set ps. nextValue s \<le> p \<and> p < nextValue s') \<and>
     map (charValueAt s') ps = map Some cs"
proof (induction cs arbitrary: s ps s')
  case Nil
  then show ?case by simp
next
  case (Cons c cs)
  obtain p s1 where a: "make_shared (CharValue (Some newCharType) c) s = (p, s1)"
    by (cases "make_shared (CharValue (Some newCharType) c) s")
  obtain ps2 s2 where b: "makeCharValues cs s1 = (ps2, s2)"
    by (cases "makeCharValues cs s1")
  from Cons.prems a b have eq: "ps = p # ps2" "s' = s2" by auto
  from a have p: "p = nextValue s" "nextValue s1 = Suc (nextValue s)"
    "objects s1 = (objects s)(nextValue s \<mapsto> CharValue (Some newCharType) c)"
    by (auto simp: make_shared_def)
  note ih = Cons.IH[OF b]
  have "objects s2 p = objects s1 p" using ih p by simp
  then have "charValueAt s2 p = Some c" using p by (simp add: charValueAt_def)
  with ih p eq show ?case by auto
qed


lemma roundtrip_string:
  assumes "getArgumentValue 0 pn env = Some p" "stringValueAt s p = Some str"
  shows "\<exists>lp s1. stringToCharListBuiltin pn env s = Returned lp s1 \<and>
           (\<forall>pn' env'. getArgumentValue 0 pn' env' = Some lp \<longrightarrow>
              (\<exists>sp s2. charListToStringBuiltin pn' env' s1 = Returned sp s2 \<and>
                         stringValueAt s2 sp = Some str))"
proof -
  obtain ps s0 where mk: "makeCharValues str s = (ps, s0)"
    by (cases "makeCharValues str s")
  define lp where "lp = nextValue s0"
  define s1 where "s1 = snd (make_shared (ListValue (Some (newListType (Some newCharType))) ps) s0)"
  have run: "stringToCharListBuiltin pn env s = Returned lp s1"
    using assms mk by (simp add: stringToCharListBuiltin_def lp_def s1_def make_shared_def)
  note spec = makeCharValues_spec[OF mk]
  have obj: "objects s1 = (objects s0)(lp \<mapsto> ListValue (Some (newListType (Some newCharType))) ps)"
    by (simp add: s1_def make_shared_def lp_def)
  have eq: "map (charValueAt s1) ps = map (charValueAt s0) ps"
  proof (rule map_cong[OF refl])
    fix x assume "x \<in> set ps"
    with spec have "x \<noteq> lp" by (auto simp: lp_def)
    then show "charValueAt s1 x = charValueAt s0 x" by (simp add: charValueAt_def obj)
  qed
  from spec have m: "map (charValueAt s0) ps = map Some str" by blast
  have chars: "appendCharacters s1 ps = Some str"
    unfolding appendCharacters_map by (simp only: eq m)
  have lv: "listValueAt s1 lp = Some (Some (newListType (Some newCharType)), ps)"
    by (simp add: listValueAt_def obj)
  have "\<exists>sp s2. charListToStringBuiltin pn' env' s1 = Returned sp s2 \<and> stringValueAt s2 sp = Some str"
    if "getArgumentValue 0 pn' env' = Some lp" for pn' env'
    using that lv chars by (simp add: charListToStringBuiltin_def make_shared_def stringValueAt_def)
  with run show ?thesis by blast
qed

lemma roundtrip_charList:
  assumes "getArgumentValue 0 pn env = Some l" "listValueAt s l = Some (ty, ps)"
    "map (charValueAt s) ps = map Some cs"
  shows "\<exists>sp s1. charListToStringBuiltin pn env s = Returned sp s1 \<and>
           (\<forall>pn' env'. getArgumentValue 0 pn' env' = Some sp \<longrightarrow>
              (\<exists>lp s2 ty' ps'. stringToCharListBuiltin pn' env' s1 = Returned lp s2 \<and>
                  listValueAt s2 lp = Some (ty', ps') \<and>
                  map (charValueAt s2) ps' = map Some cs))"
proof -
  define sp where "sp = nextValue s"
  define s1 where "s1 = snd (make_shared (StringValue (Some newStringType) cs) s)"
  have chars: "appendCharacters s ps = Some cs"
    using assms(3) by (simp add: appendCharacters_map)
  have run: "charListToStringBuiltin pn env s = Returned sp s1"
    using assms chars by (simp add: charListToStringBuiltin_def make_shared_def sp_def s1_def)
  have sv: "stringValueAt s1 sp = Some cs"
    by (simp add: stringValueAt_def s1_def sp_def make_shared_def)
  have "\<exists>lp s2 ty' ps'. stringToCharListBuiltin pn' env' s1 = Returned lp s2 \<and>
          listValueAt s2 lp = Some (ty', ps') \<and> map (charValueAt s2) ps' = map Some cs"
    if arg: "getArgumentValue 0 pn' env' = Some sp" for pn' env'
  proof -
    obtain ps' s0 where mk: "makeCharValues cs s1 = (ps', s0)"
      by (cases "makeCharValues cs s1")
    note spec = makeCharValues_spec[OF mk]
    define s2 where "s2 = snd (make_shared (ListValue (Some (newListType (Some newCharType))) ps') s0)"
    have obj: "objects s2 = (objects s0)(nextValue s0 \<mapsto> ListValue (Some (newListType (Some newCharType))) ps')"
      by (simp add: s2_def make_shared_def)
    have run2: "stringToCharListBuiltin pn' env' s1 = Returned (nextValue s0) s2"
      using arg sv mk by (simp add: stringToCharListBuiltin_def s2_def make_shared_def)
    have eq: "map (charValueAt s2) ps' = map (charValueAt s0) ps'"
    proof (rule map_cong[OF refl])
      fix x assume "x \<in> set ps'"
      with spec have "x \<noteq> nextValue s0" by auto
      then show "charValueAt s2 x = charValueAt s0 x" by (simp add: charValueAt_def obj)
    qed
    from spec have m: "map (charValueAt s0) ps' = map Some cs" by blast
    have "map (charValueAt s2) ps' = map Some cs" by (simp only: eq m)
    moreover have "listValueAt s2 (nextValue s0) = Some (Some (newListType (Some newCharType)), ps')"
      by (simp add: listValueAt_def obj)
    ultimately show ?thesis using run2 by blast
  qed
  with run show ?thesis by blast
qed


text \<open>
  Claim C10. The conversions are inverse to each other. From a string value,
  \<open>stringToCharList\<close> returns a list on which \<open>charListToString\<close> returns a string value
  with the same characters; from a list whose elements are character values,
  \<open>charListToString\<close> returns a string on which \<open>stringToCharList\<close> returns a list of
  character values with the same characters in the same order.
\<close>

theorem conversion_roundtrip:
  "(getArgumentValue 0 pn env = Some p \<and> stringValueAt s p = Some str \<longrightarrow>
      (\<exists>lp s1. stringToCharListBuiltin pn env s = Returned lp s1 \<and>
         (\<forall>pn' env'. getArgumentValue 0 pn' env' = Some lp \<longrightarrow>
            (\<exists>sp s2. charListToStringBuiltin pn' env' s1 = Returned sp s2 \<and>
                       stringValueAt s2 sp = Some str)))) \<and>
   (getArgumentValue 0 pn env = Some l \<and> listValueAt s l = Some (ty, ps) \<and>
    map (charValueAt s) ps = map Some cs \<longrightarrow>
      (\<exists>sp s1. charListToStringBuiltin pn env s = Returned sp s1 \<and>
         (\<forall>pn' env'. getArgumentValue 0 pn' env' = Some sp \<longrightarrow>
            (\<exists>lp s2 ty' ps'. stringToCharListBuiltin pn' env' s1 = Returned lp s2 \<and>
                listValueAt s2 lp = Some (ty', ps') \<and>
                map (charValueAt s2) ps' = map Some cs))))"
  using roundtrip_string[of pn env p s str] roundtrip_charList[of pn env l s ty ps cs]
  by blast

theorem conversion_roundtrip_witness:
  "getArgumentValue 0 [''x''] [''x'' \<mapsto> 1] = Some 1 \<and>
   stringValueAt exampleStore 1 = Some ''ab'' \<and>
   (\<exists>lp s1. stringToCharListBuiltin [''x''] [''x'' \<mapsto> 1] exampleStore = Returned lp s1 \<and>
      (\<exists>sp s2. charListToStringBuiltin [''y''] [''y'' \<mapsto> lp] s1 = Returned sp s2 \<and>
                 stringValueAt s2 sp = Some ''ab'')) \<and>
   getArgumentValue 0 [''x''] [''x'' \<mapsto> 4] = Some 4 \<and>
   listValueAt exampleStore 4 = Some (Some (newListType (Some newCharType)), [2, 3]) \<and>
   map (charValueAt exampleStore) [2, 3] = map Some ''ab'' \<and>
   (\<exists>sp s1. charListToStringBuiltin [''x''] [''x'' \<mapsto> 4] exampleStore = Returned sp s1 \<and>
      (\<exists>lp s2 ty' ps'. stringToCharListBuiltin [''y''] [''y'' \<mapsto> sp] s1 = Returned lp s2 \<and>
          listValueAt s2 lp = Some (ty', ps') \<and>
          map (charValueAt s2) ps' = map Some ''ab''))"
proof -
  have a1: "getArgumentValue 0 [''x''] [''x'' \<mapsto> 1] = Some 1"
    by (simp add: getArgumentValue_def)
  have a2: "stringValueAt exampleStore 1 = Some ''ab''"
    by (simp add: stringValueAt_def exampleStore_def)
  have b1: "getArgumentValue 0 [''x''] [''x'' \<mapsto> 4] = Some 4"
    by (simp add: getArgumentValue_def)
  have b2: "listValueAt exampleStore 4 = Some (Some (newListType (Some newCharType)), [2, 3])"
    by (simp add: listValueAt_def exampleStore_def)
  have b3: "map (charValueAt exampleStore) [2, 3] = map Some ''ab''"
    by (simp add: charValueAt_def exampleStore_def)
  have y: "getArgumentValue 0 [''y''] [''y'' \<mapsto> q] = Some q" for q :: nat
    by (simp add: getArgumentValue_def)
  from conversion_roundtrip[THEN conjunct1, rule_format, OF conjI[OF a1 a2]] y
  have A: "\<exists>lp s1. stringToCharListBuiltin [''x''] [''x'' \<mapsto> 1] exampleStore = Returned lp s1 \<and>
      (\<exists>sp s2. charListToStringBuiltin [''y''] [''y'' \<mapsto> lp] s1 = Returned sp s2 \<and>
                 stringValueAt s2 sp = Some ''ab'')"
    by blast
  from conversion_roundtrip[THEN conjunct2, rule_format, OF conjI[OF b1 conjI[OF b2 b3]]] y
  have B: "\<exists>sp s1. charListToStringBuiltin [''x''] [''x'' \<mapsto> 4] exampleStore = Returned sp s1 \<and>
      (\<exists>lp s2 ty' ps'. stringToCharListBuiltin [''y''] [''y'' \<mapsto> sp] s1 = Returned lp s2 \<and>
          listValueAt s2 lp = Some (ty', ps') \<and>
          map (charValueAt s2) ps' = map Some ''ab'')"
    by blast
  from a1 a2 b1 b2 b3 A B show ?thesis by blast
qed

lemma sameData_refl: "sameData v v"
  by (cases v) (simp_all add: sameData_def)

lemma setValueType_twice: "setValueType t (setValueType t' v) = setValueType t v"
  by (cases v) simp_all

lemma valueType_setValueType: "valueType (setValueType t v) = t"
  by (cases v) simp_all

lemma sameData_setValueType: "sameData v (setValueType t v)"
  by (simp add: sameData_def valueType_setValueType)

lemma sameData_trans: "sameData v v1 \<Longrightarrow> sameData v1 v2 \<Longrightarrow> sameData v v2"
  unfolding sameData_def by (metis setValueType_twice)

lemma unchanged_refl: "unchanged s s"
  unfolding unchanged_def by (simp add: sameData_refl)

lemma unchanged_trans: "unchanged s s1 \<Longrightarrow> unchanged s1 s2 \<Longrightarrow> unchanged s s2"
  unfolding unchanged_def by (meson sameData_trans)

lemma quiet_refl: "quiet s s"
  by (simp add: quiet_def unchanged_refl)

lemma quiet_trans: "quiet s s1 \<Longrightarrow> quiet s1 s2 \<Longrightarrow> quiet s s2"
  unfolding quiet_def using unchanged_trans by auto

lemma quiet_assignType: "quiet s (assignType q t s)"
  unfolding quiet_def unchanged_def assignType_def
  by (auto simp: sameData_refl sameData_setValueType)

lemma quiet_assignType2: "quiet s (assignType q t (assignType q' t' s))"
  by (rule quiet_trans[OF quiet_assignType quiet_assignType])

lemma compareElementType_quiet:
  "compareElementType e l s = Some (b, s1) \<Longrightarrow> quiet s s1"
  unfolding compareElementType_def
  by (auto split: option.splits Type.splits intro: quiet_assignType2)

lemma compareWithInt_quiet:
  "compareWithInt p s = Some (b, s1) \<Longrightarrow> quiet s s1"
  unfolding compareWithInt_def
  by (auto split: option.splits intro: quiet_assignType)

lemma finish_error:
  assumes run: "reportError tok m s1 = Returned r s'" and q: "quiet s s1"
  shows "nonInPlaceResult s r s'"
proof -
  from run have r: "r = nullValue" and s': "s' = printError tok (m @ currentLineText (position tok)) s1"
    by (auto simp: reportError_def)
  have u: "unchanged s1 s'" by (simp add: s' printError_def unchanged_def sameData_refl)
  from q have "unchanged s s1" by (simp add: quiet_def)
  with u have "unchanged s s'" by (rule unchanged_trans[rotated])
  moreover have "errorReported s r s'"
    using q by (simp add: errorReported_def r s' printError_def quiet_def)
  ultimately show ?thesis by (simp add: nonInPlaceResult_def)
qed

lemma finish_make:
  assumes run: "makeListType t ys s1 = Returned r s'" and q: "quiet s s1"
    and wf: "\<forall>a\<ge>nextValue s. objects s a = None"
  shows "nonInPlaceResult s r s'"
proof -
  from run obtain d lt where t: "t = Some (ListType d lt)"
    by (auto simp: makeListType_def split: option.splits Type.splits)
  from run t have r: "r = nextValue s1"
    and s': "s' = s1\<lparr>objects := (objects s1)(nextValue s1 \<mapsto> ListValue (Some (newListType lt)) ys),
                     nextValue := Suc (nextValue s1)\<rparr>"
    by (auto simp: makeListType_def make_shared_def)
  from q have n: "nextValue s1 = nextValue s" and none: "\<And>a. (objects s1 a = None) = (objects s a = None)"
    and u: "unchanged s s1" and e: "error s1 = error s" "diagnostics s1 = diagnostics s"
    by (simp_all add: quiet_def)
  from wf have f: "objects s (nextValue s) = None" by simp
  then have f1: "objects s1 (nextValue s) = None" by (simp add: none)
  have "unchanged s1 s'"
    unfolding unchanged_def s' using f1 n by (auto simp: sameData_refl)
  with u have "unchanged s s'" by (rule unchanged_trans)
  moreover have "freshList s r s'"
    by (simp add: freshList_def r n f s' e none)
  ultimately show ?thesis by (simp add: nonInPlaceResult_def)
qed

lemma insertBuiltin_result:
  assumes run: "insertBuiltin token pn env s = Returned r s'"
    and wf: "\<forall>a\<ge>nextValue s. objects s a = None"
  shows "nonInPlaceResult s r s'"
  using run unfolding insertBuiltin_def
  by (auto split: option.splits if_splits prod.splits
      dest!: compareElementType_quiet
      intro: finish_make[OF _ _ wf] finish_error)

lemma removeBuiltin_result:
  assumes run: "removeBuiltin token pn env s = Returned r s'"
    and wf: "\<forall>a\<ge>nextValue s. objects s a = None"
  shows "nonInPlaceResult s r s'"
  using run unfolding removeBuiltin_def
  by (auto split: option.splits if_splits prod.splits
      intro: finish_make[OF _ quiet_refl wf] finish_error[OF _ quiet_refl])

lemma replaceBuiltin_result:
  assumes run: "replaceBuiltin token pn env s = Returned r s'"
    and wf: "\<forall>a\<ge>nextValue s. objects s a = None"
  shows "nonInPlaceResult s r s'"
  using run unfolding replaceBuiltin_def
  by (auto split: option.splits if_splits prod.splits
      dest!: compareElementType_quiet
      intro: finish_make[OF _ _ wf] finish_error finish_error[OF _ quiet_refl])

lemma pushFrontBuiltin_result:
  assumes run: "pushFrontBuiltin token pn env s = Returned r s'"
    and wf: "\<forall>a\<ge>nextValue s. objects s a = None"
  shows "nonInPlaceResult s r s'"
  using run unfolding pushFrontBuiltin_def
  by (auto split: option.splits if_splits prod.splits
      dest!: compareElementType_quiet
      intro: finish_make[OF _ _ wf] finish_error)

lemma pushBackBuiltin_result:
  assumes run: "pushBackBuiltin token pn env s = Returned r s'"
    and wf: "\<forall>a\<ge>nextValue s. objects s a = None"
  shows "nonInPlaceResult s r s'"
  using run unfolding pushBackBuiltin_def
  by (auto split: option.splits if_splits prod.splits
      dest!: compareElementType_quiet
      intro: finish_make[OF _ _ wf] finish_error)

lemma headBuiltin_result:
  assumes run: "headBuiltin token pn env s = Returned r s'"
    and wf: "\<forall>a\<ge>nextValue s. objects s a = None"
  shows "nonInPlaceResult s r s'"
  using run unfolding headBuiltin_def
  by (auto split: option.splits if_splits prod.splits
      intro: finish_make[OF _ quiet_refl wf] finish_error[OF _ quiet_refl])

lemma tailBuiltin_result:
  assumes run: "tailBuiltin token pn env s = Returned r s'"
    and wf: "\<forall>a\<ge>nextValue s. objects s a = None"
  shows "nonInPlaceResult s r s'"
  using run unfolding tailBuiltin_def
  by (auto split: option.splits if_splits prod.splits
      intro: finish_make[OF _ quiet_refl wf] finish_error[OF _ quiet_refl])

lemma combineBuiltin_result:
  assumes run: "combineBuiltin token pn env s = Returned r s'"
    and wf: "\<forall>a\<ge>nextValue s. objects s a = None"
  shows "nonInPlaceResult s r s'"
  using run unfolding combineBuiltin_def Let_def
  by (auto split: option.splits if_splits prod.splits
      intro: finish_make[OF _ quiet_assignType2 wf] finish_error[OF _ quiet_assignType2])

lemma rangeBuiltin_result:
  assumes run: "rangeBuiltin token pn env s = Returned r s'"
    and wf: "\<forall>a\<ge>nextValue s. objects s a = None"
  shows "nonInPlaceResult s r s'"
  using run unfolding rangeBuiltin_def Let_def
  by (auto split: option.splits if_splits prod.splits
      dest!: compareWithInt_quiet
      intro: finish_make[OF _ quiet_trans wf] finish_error[OF _ quiet_trans]
             finish_error finish_error[OF _ quiet_refl])

lemma unchanged_list:
  assumes "unchanged s s'" "listValueAt s L = Some (ty, xs)"
  shows "\<exists>ty'. listValueAt s' L = Some (ty', xs)"
proof -
  from assms(2) have "objects s L = Some (ListValue ty xs)"
    by (auto simp: listValueAt_def split: option.splits Value.splits)
  with assms(1) obtain v' where "objects s' L = Some v'" "sameData (ListValue ty xs) v'"
    unfolding unchanged_def by blast
  then show ?thesis by (cases v') (auto simp: sameData_def listValueAt_def)
qed

text \<open>
  A call of \<open>insert\<close>, \<open>remove\<close>, \<open>replace\<close>, \<open>pushFront\<close>, \<open>pushBack\<close>, \<open>head\<close>,
  \<open>tail\<close>, \<open>combine\<close> or \<open>range\<close> that returns leaves every object of the store with
  its data: every list keeps its sequence of elements, and every element its value.
  What it returns is either the null value, after it has set the error latch and printed
  one message, or a list at an address that held no object before, and then nothing has
  been reported.
\<close>

lemma nonInPlace_builtins_leave_objects_unchanged:
  assumes f: "f \<in> {insertBuiltin, removeBuiltin, replaceBuiltin, pushFrontBuiltin, pushBackBuiltin,
                  headBuiltin, tailBuiltin, combineBuiltin, rangeBuiltin}"
    and wf: "\<forall>a\<ge>nextValue s. objects s a = None"
    and run: "f token pn env s = Returned r s'"
  shows "unchanged s s' \<and> (errorReported s r s' \<or> freshList s r s') \<and>
         (\<forall>L ty xs. listValueAt s L = Some (ty, xs) \<longrightarrow> (\<exists>ty'. listValueAt s' L = Some (ty', xs)))"
proof -
  have "nonInPlaceResult s r s'"
    using f run insertBuiltin_result[OF _ wf, of token pn env r s']
      removeBuiltin_result[OF _ wf, of token pn env r s']
      replaceBuiltin_result[OF _ wf, of token pn env r s']
      pushFrontBuiltin_result[OF _ wf, of token pn env r s']
      pushBackBuiltin_result[OF _ wf, of token pn env r s']
      headBuiltin_result[OF _ wf, of token pn env r s']
      tailBuiltin_result[OF _ wf, of token pn env r s']
      combineBuiltin_result[OF _ wf, of token pn env r s']
      rangeBuiltin_result[OF _ wf, of token pn env r s']
    by auto
  then have u: "unchanged s s'" and r: "errorReported s r s' \<or> freshList s r s'"
    by (simp_all add: nonInPlaceResult_def)
  from u r unchanged_list[OF u] show ?thesis by blast
qed

text \<open>
  The results on a call with arguments of the right classes and types: a list of the
  type \<open>List[T]\<close>, an element of the type \<open>T\<close>, an integer as index. The type test
  passes and assigns nothing, and the store the built-in works in is the store of the
  call. \<open>makeListType\<close> then returns the new list at the next free address.
\<close>

lemma assignType_same:
  "objects s p = Some v \<Longrightarrow> valueType v = t \<Longrightarrow> assignType p t s = s"
proof -
  assume a: "objects s p = Some v" "valueType v = t"
  have "setValueType (valueType v) v = v" by (cases v) simp_all
  with a have "(objects s)(p := map_option (setValueType t) (objects s p)) = objects s"
    by (simp add: fun_upd_idem)
  then show ?thesis by (simp add: assignType_def)
qed

lemma compareElementType_typed:
  assumes l: "objects s L = Some (ListValue (Some (ListType d (Some T))) xs)"
    and e: "objects s e = Some v" "valueType v = Some T" and T: "concrete T"
  shows "compareElementType e L s = Some (True, s)"
proof -
  from T have c: "compare T (Some T) = Some (True, T, Some T)" using compare_refl_aux(1) by blast
  have s1: "assignType e (Some T) s = s" using e by (rule assignType_same)
  have s2: "assignType L (Some (ListType d (Some T))) s = s"
    using l by (rule assignType_same) simp
  show ?thesis
    by (simp add: compareElementType_def e listValueAt_def l c s1 s2)
qed

lemma makeListType_made:
  "makeListType (Some (ListType d lt)) ys s =
     Returned (nextValue s)
       (s\<lparr>objects := (objects s)(nextValue s \<mapsto> ListValue (Some (newListType lt)) ys),
          nextValue := Suc (nextValue s)\<rparr>)"
  by (simp add: makeListType_def make_shared_def)

lemma pushBackBuiltin_typed:
  assumes a: "getArgumentValue 0 pn env = Some L" "getArgumentValue 1 pn env = Some e"
    and l: "objects s L = Some (ListValue (Some (ListType d (Some T))) xs)"
    and e: "objects s e = Some v" "valueType v = Some T" and T: "concrete T"
  shows "pushBackBuiltin token pn env s = makeListType (Some (ListType d (Some T))) (xs @ [e]) s"
proof -
  have a1: "getArgumentValue (Suc 0) pn env = Some e" using a(2) by simp
  show ?thesis
    by (simp add: pushBackBuiltin_def a a1 compareElementType_typed[OF l e T] listValueAt_def l)
qed

lemma pushFrontBuiltin_typed:
  assumes a: "getArgumentValue 0 pn env = Some L" "getArgumentValue 1 pn env = Some e"
    and l: "objects s L = Some (ListValue (Some (ListType d (Some T))) xs)"
    and e: "objects s e = Some v" "valueType v = Some T" and T: "concrete T"
  shows "pushFrontBuiltin token pn env s = makeListType (Some (ListType d (Some T))) (e # xs) s"
proof -
  have a1: "getArgumentValue (Suc 0) pn env = Some e" using a(2) by simp
  show ?thesis
    by (simp add: pushFrontBuiltin_def a a1 compareElementType_typed[OF l e T] listValueAt_def l)
qed

lemma insertBuiltin_typed:
  assumes a: "getArgumentValue 0 pn env = Some L" "getArgumentValue 1 pn env = Some e"
      "getArgumentValue 2 pn env = Some iv"
    and l: "objects s L = Some (ListValue (Some (ListType d (Some T))) xs)"
    and e: "objects s e = Some v" "valueType v = Some T" and T: "concrete T"
    and i: "objects s iv = Some (IntValue ity i)"
  shows "insertBuiltin token pn env s =
           (if xs \<noteq> [] \<and> length xs \<le> unat i then reportError token errorOutOfBounds s
            else if length xs < unat i then Undefined
            else makeListType (Some (ListType d (Some T)))
                   (take (unat i) xs @ e # drop (unat i) xs) s)"
proof -
  have a1: "getArgumentValue (Suc 0) pn env = Some e" using a(2) by simp
  show ?thesis
    by (simp add: insertBuiltin_def a a1 compareElementType_typed[OF l e T] listValueAt_def l
        intValueAt_def i)
qed

lemma removeBuiltin_typed:
  assumes a: "getArgumentValue 0 pn env = Some L" "getArgumentValue 1 pn env = Some iv"
    and l: "objects s L = Some (ListValue (Some (ListType d lt)) xs)"
    and i: "objects s iv = Some (IntValue ity i)"
  shows "removeBuiltin token pn env s =
           (if xs = [] then reportError token ''Error: Cannot remove from empty list: '' s
            else if length xs \<le> unat i then reportError token errorOutOfBounds s
            else makeListType (Some (ListType d lt)) (take (unat i) xs @ drop (Suc (unat i)) xs) s)"
proof -
  have a1: "getArgumentValue (Suc 0) pn env = Some iv" using a(2) by simp
  show ?thesis
    by (simp add: removeBuiltin_def a a1 listValueAt_def l intValueAt_def i)
qed

lemma replaceBuiltin_typed:
  assumes a: "getArgumentValue 0 pn env = Some L" "getArgumentValue 1 pn env = Some e"
      "getArgumentValue 2 pn env = Some iv"
    and l: "objects s L = Some (ListValue (Some (ListType d (Some T))) xs)"
    and e: "objects s e = Some v" "valueType v = Some T" and T: "concrete T"
    and i: "objects s iv = Some (IntValue ity i)"
  shows "replaceBuiltin token pn env s =
           (if xs = [] then reportError token ''Error: Cannot replace with element in empty list: '' s
            else if length xs \<le> unat i then reportError token errorOutOfBounds s
            else makeListType (Some (ListType d (Some T))) (xs[unat i := e]) s)"
proof -
  have a1: "getArgumentValue (Suc 0) pn env = Some e" using a(2) by simp
  show ?thesis
    by (simp add: replaceBuiltin_def a a1 compareElementType_typed[OF l e T] listValueAt_def l
        intValueAt_def i)
qed

lemma headBuiltin_typed:
  assumes a: "getArgumentValue 0 pn env = Some L"
    and l: "objects s L = Some (ListValue (Some (ListType d lt)) xs)"
  shows "headBuiltin token pn env s =
           (if xs = [] then reportError token errorEmptySublist s
            else makeListType (Some (ListType d lt)) (butlast xs) s)"
  by (simp add: headBuiltin_def a listValueAt_def l)

lemma tailBuiltin_typed:
  assumes a: "getArgumentValue 0 pn env = Some L"
    and l: "objects s L = Some (ListValue (Some (ListType d lt)) xs)"
  shows "tailBuiltin token pn env s =
           (if xs = [] then reportError token errorEmptySublist s
            else makeListType (Some (ListType d lt)) (tl xs) s)"
  by (simp add: tailBuiltin_def a listValueAt_def l)

lemma combineBuiltin_typed:
  assumes a: "getArgumentValue 0 pn env = Some L1" "getArgumentValue 1 pn env = Some L2"
    and l1: "objects s L1 = Some (ListValue (Some (ListType d lt)) xs)"
    and l2: "objects s L2 = Some (ListValue (Some (ListType d lt)) ys)"
    and T: "concrete (ListType d lt)"
  shows "combineBuiltin token pn env s = makeListType (Some (ListType d lt)) (xs @ ys) s"
proof -
  have a1: "getArgumentValue (Suc 0) pn env = Some L2" using a(2) by simp
  from T have c: "compare (ListType d lt) (Some (ListType d lt))
                    = Some (True, ListType d lt, Some (ListType d lt))"
    using compare_refl_aux(1) by blast
  have s1: "assignType L1 (Some (ListType d lt)) s = s" using l1 by (rule assignType_same) simp
  have s2: "assignType L2 (Some (ListType d lt)) s = s" using l2 by (rule assignType_same) simp
  show ?thesis
    unfolding combineBuiltin_def
    by (simp add: a a1 listValueAt_def l1 l2 c s1 s2 del: compare.simps)
qed

lemma pushBack_scenario:
  "\<exists>s'. pushBackBuiltin exampleToken [''l'', ''e''] [''l'' \<mapsto> 10, ''e'' \<mapsto> 8] exampleStore
          = Returned 11 s' \<and>
        listValueAt s' 11 = Some (Some (newListType (Some newIntType)), [5, 6, 7, 8]) \<and>
        listValueAt s' 10 = Some (Some (newListType (Some newIntType)), [5, 6, 7]) \<and>
        map (intValueAt s') [5, 6, 7, 8] = map (intValueAt exampleStore) [5, 6, 7, 8]"
  by (simp add: pushBackBuiltin_def getArgumentValue_def compareElementType_def exampleStore_def
      listValueAt_def intValueAt_def newListType_def newIntType_def Type_compare_def assignType_def
      makeListType_def make_shared_def)

text \<open>
  Claim C5 at \<open>insert(L, 4, 5)\<close> with \<open>L\<close> the empty list. The test of the index,
  \<open>!listData.empty() && index >= listData.size()\<close>, does not look at the index when the
  list is empty, and \<open>listData.insert(listData.begin() + 5, elementValue)\<close> is called on
  the empty copy with an iterator past its end: the behaviour is undefined. \<open>insert\<close>
  reports no error and returns no list. (With the index 0 it returns the new list of the
  one element; \<open>remove\<close> and \<open>replace\<close> report an index that is out of bounds as an
  error.)
\<close>

theorem insertBuiltin_past_end_of_empty_list:
  "listValueAt emptyListStore 3 = Some (Some (newListType (Some newIntType)), []) \<and>
   intValueAt emptyListStore 1 = Some (Some newIntType, 4) \<and>
   intValueAt emptyListStore 2 = Some (Some newIntType, 5) \<and>
   insertBuiltin exampleToken [''l'', ''e'', ''i''] [''l'' \<mapsto> 3, ''e'' \<mapsto> 1, ''i'' \<mapsto> 2] emptyListStore
     = Undefined \<and>
   (\<exists>s'. insertBuiltin exampleToken [''l'', ''e'', ''i''] [''l'' \<mapsto> 3, ''e'' \<mapsto> 1, ''i'' \<mapsto> 4]
            emptyListStore = Returned 5 s' \<and>
         listValueAt s' 5 = Some (Some (newListType (Some newIntType)), [1]))"
  by (simp add: insertBuiltin_def getArgumentValue_def compareElementType_def emptyListStore_def
      listValueAt_def intValueAt_def newListType_def newIntType_def Type_compare_def assignType_def
      makeListType_def make_shared_def)

lemma assignType_diagnostics: "diagnostics (assignType q t s) = diagnostics s"
  by (simp add: assignType_def)

lemma compareElementType_diagnostics:
  "compareElementType e l s = Some (b, s1) \<Longrightarrow> diagnostics s1 = diagnostics s"
  unfolding compareElementType_def
  by (auto split: option.splits Type.splits simp: assignType_diagnostics)

lemma reportError_diag:
  "reportError tok m s1 = Returned r s' \<Longrightarrow> diagnostics s' \<noteq> diagnostics s1"
  by (auto simp: reportError_def printError_def)

lemma makeListType_agree:
  assumes "makeListType t ys s0 = Returned r1 s1" "listValueAt s0 L = Some (t, xs)"
  shows "diagnostics s1 = diagnostics s0 \<and> error s1 = error s0 \<and>
         diagnostics (assignListData L ys s0) = diagnostics s0 \<and>
         error (assignListData L ys s0) = error s0 \<and>
         (\<exists>ty1 ty2. listValueAt s1 r1 = Some (ty1, ys) \<and>
                    listValueAt (assignListData L ys s0) L = Some (ty2, ys)) \<and>
         (\<forall>a. a \<noteq> r1 \<and> a \<noteq> L \<longrightarrow> objects (assignListData L ys s0) a = objects s1 a)"
  using assms
  unfolding makeListType_def make_shared_def listValueAt_def assignListData_def
  by (auto split: option.splits Type.splits Value.splits)

lemma insert_agree_quiet:
  assumes "insertBuiltin token pn env s = Returned r1 s1" "diagnostics s1 = diagnostics s"
  shows "\<exists>L s2 ty1 ty2 xs.
           getArgumentValue 0 pn env = Some L \<and>
           insertInPlaceBuiltin token pn env s = Returned L s2 \<and>
           diagnostics s2 = diagnostics s \<and>
           listValueAt s1 r1 = Some (ty1, xs) \<and> listValueAt s2 L = Some (ty2, xs) \<and>
           (\<forall>a. a \<noteq> r1 \<and> a \<noteq> L \<longrightarrow> objects s2 a = objects s1 a)"
  using assms unfolding insertBuiltin_def insertInPlaceBuiltin_def
  by (auto split: option.splits if_splits prod.splits
      dest!: reportError_diag
      dest: makeListType_agree compareElementType_diagnostics)

lemma remove_agree_quiet:
  assumes "removeBuiltin token pn env s = Returned r1 s1" "diagnostics s1 = diagnostics s"
  shows "\<exists>L s2 ty1 ty2 xs.
           getArgumentValue 0 pn env = Some L \<and>
           removeInPlaceBuiltin token pn env s = Returned L s2 \<and>
           diagnostics s2 = diagnostics s \<and>
           listValueAt s1 r1 = Some (ty1, xs) \<and> listValueAt s2 L = Some (ty2, xs) \<and>
           (\<forall>a. a \<noteq> r1 \<and> a \<noteq> L \<longrightarrow> objects s2 a = objects s1 a)"
  using assms unfolding removeBuiltin_def removeInPlaceBuiltin_def
  by (auto split: option.splits if_splits prod.splits
      dest!: reportError_diag
      dest: makeListType_agree)

lemma replace_agree_quiet:
  assumes "replaceBuiltin token pn env s = Returned r1 s1" "diagnostics s1 = diagnostics s"
  shows "\<exists>L s2 ty1 ty2 xs.
           getArgumentValue 0 pn env = Some L \<and>
           replaceInPlaceBuiltin token pn env s = Returned L s2 \<and>
           diagnostics s2 = diagnostics s \<and>
           listValueAt s1 r1 = Some (ty1, xs) \<and> listValueAt s2 L = Some (ty2, xs) \<and>
           (\<forall>a. a \<noteq> r1 \<and> a \<noteq> L \<longrightarrow> objects s2 a = objects s1 a)"
  using assms unfolding replaceBuiltin_def replaceInPlaceBuiltin_def
  by (auto split: option.splits if_splits prod.splits
      dest!: reportError_diag
      dest: makeListType_agree compareElementType_diagnostics)

lemma makeListType_quiet:
  "makeListType t ys s0 = Returned r s' \<Longrightarrow> diagnostics s' = diagnostics s0"
  unfolding makeListType_def make_shared_def
  by (auto split: option.splits Type.splits)

lemma compare_make_quiet:
  "makeListType t ys s0 = Returned r s' \<Longrightarrow> compareElementType e L s = Some (b, s0) \<Longrightarrow>
     diagnostics s' = diagnostics s"
  using makeListType_quiet compareElementType_diagnostics by metis

lemma insert_agree_error:
  assumes "insertBuiltin token pn env s = Returned r1 s1" "diagnostics s1 \<noteq> diagnostics s"
  shows "insertInPlaceBuiltin token pn env s = Returned r1 s1"
  using assms unfolding insertBuiltin_def insertInPlaceBuiltin_def
  by (auto split: option.splits if_splits prod.splits
      dest: compare_make_quiet)

lemma remove_agree_error:
  assumes "removeBuiltin token pn env s = Returned r1 s1" "diagnostics s1 \<noteq> diagnostics s"
  shows "removeInPlaceBuiltin token pn env s = Returned r1 s1"
  using assms unfolding removeBuiltin_def removeInPlaceBuiltin_def
  by (auto split: option.splits if_splits prod.splits
      dest: makeListType_quiet)

lemma replace_agree_error:
  assumes "replaceBuiltin token pn env s = Returned r1 s1" "diagnostics s1 \<noteq> diagnostics s"
  shows "replaceInPlaceBuiltin token pn env s = Returned r1 s1"
  using assms unfolding replaceBuiltin_def replaceInPlaceBuiltin_def
  by (auto split: option.splits if_splits prod.splits
      dest: compare_make_quiet)

lemma compareElementType_listType:
  "compareElementType e L s = Some (b, s1) \<Longrightarrow> listValueAt s1 L = Some (t, xs) \<Longrightarrow>
     \<exists>d lt. t = Some (ListType d lt)"
  unfolding compareElementType_def assignType_def listValueAt_def
  by (auto split: option.splits Type.splits Value.splits if_splits)

lemma compare_then_make:
  assumes "compareElementType e L s = Some (b, s0)" "listValueAt s0 L = Some (t, xs)"
  shows "\<exists>r1 s1. makeListType t ys s0 = Returned r1 s1 \<and> diagnostics s1 = diagnostics s"
proof -
  from compareElementType_listType[OF assms] obtain d lt where "t = Some (ListType d lt)" by blast
  then show ?thesis
    using compareElementType_diagnostics[OF assms(1)] by (simp add: makeListType_made)
qed

lemma insert_agree_converse:
  assumes "insertInPlaceBuiltin token pn env s = Returned r2 s2" "diagnostics s2 = diagnostics s"
  shows "\<exists>r1 s1. insertBuiltin token pn env s = Returned r1 s1 \<and> diagnostics s1 = diagnostics s"
  using assms unfolding insertBuiltin_def insertInPlaceBuiltin_def
  by (auto split: option.splits if_splits prod.splits
      dest!: reportError_diag
      dest: compareElementType_diagnostics
      intro: compare_then_make)

lemma replace_agree_converse:
  assumes "replaceInPlaceBuiltin token pn env s = Returned r2 s2" "diagnostics s2 = diagnostics s"
  shows "\<exists>r1 s1. replaceBuiltin token pn env s = Returned r1 s1 \<and> diagnostics s1 = diagnostics s"
  using assms unfolding replaceBuiltin_def replaceInPlaceBuiltin_def
  by (auto split: option.splits if_splits prod.splits
      dest!: reportError_diag
      dest: compareElementType_diagnostics
      intro: compare_then_make)

lemma remove_agree_converse:
  assumes "removeInPlaceBuiltin token pn env s = Returned r2 s2" "diagnostics s2 = diagnostics s"
    and "getArgumentValue 0 pn env = Some L" "listValueAt s L = Some (Some (ListType d lt), xs)"
  shows "\<exists>r1 s1. removeBuiltin token pn env s = Returned r1 s1 \<and> diagnostics s1 = diagnostics s"
  using assms unfolding removeBuiltin_def removeInPlaceBuiltin_def
  by (auto split: option.splits if_splits prod.splits
      simp: makeListType_made
      dest!: reportError_diag)

text \<open>
  The in-place variants follow the variants that copy. Where \<open>insert\<close>, \<open>remove\<close> or
  \<open>replace\<close> returns and has reported nothing, the in-place variant on the same store
  and arguments returns its first argument and has reported nothing, the list it returns
  has the same sequence of elements as the list the other returned, and the two stores
  have the same objects everywhere else (so the elements have the same values). Where
  the variant that copies returns after an error, the in-place variant returns the same
  result in the same store.
\<close>

lemma inPlace_builtins_agree:
  assumes "(f, g) \<in> {(insertBuiltin, insertInPlaceBuiltin), (removeBuiltin, removeInPlaceBuiltin),
                     (replaceBuiltin, replaceInPlaceBuiltin)}"
    and "f token pn env s = Returned r1 s1"
  shows "(diagnostics s1 = diagnostics s \<longrightarrow>
            (\<exists>L s2 ty1 ty2 xs.
               getArgumentValue 0 pn env = Some L \<and>
               g token pn env s = Returned L s2 \<and>
               diagnostics s2 = diagnostics s \<and>
               listValueAt s1 r1 = Some (ty1, xs) \<and> listValueAt s2 L = Some (ty2, xs) \<and>
               (\<forall>a. a \<noteq> r1 \<and> a \<noteq> L \<longrightarrow> objects s2 a = objects s1 a))) \<and>
         (diagnostics s1 \<noteq> diagnostics s \<longrightarrow> g token pn env s = Returned r1 s1)"
  using assms insert_agree_quiet[of token pn env s r1 s1] remove_agree_quiet[of token pn env s r1 s1]
    replace_agree_quiet[of token pn env s r1 s1] insert_agree_error[of token pn env s r1 s1]
    remove_agree_error[of token pn env s r1 s1] replace_agree_error[of token pn env s r1 s1]
  by blast

text \<open>
  Conversely, where the in-place variant returns and has reported nothing, so does the
  variant that copies, provided the first argument has a list type (which \<open>makeListType\<close>
  reads).
\<close>

lemma inPlace_builtins_agree_converse:
  assumes "(f, g) \<in> {(insertBuiltin, insertInPlaceBuiltin), (removeBuiltin, removeInPlaceBuiltin),
                     (replaceBuiltin, replaceInPlaceBuiltin)}"
    and "g token pn env s = Returned r2 s2" "diagnostics s2 = diagnostics s"
    and "getArgumentValue 0 pn env = Some L" "listValueAt s L = Some (Some (ListType d lt), xs)"
  shows "\<exists>r1 s1. f token pn env s = Returned r1 s1 \<and> diagnostics s1 = diagnostics s"
  using assms insert_agree_converse[of token pn env s r2 s2]
    replace_agree_converse[of token pn env s r2 s2]
    remove_agree_converse[of token pn env s r2 s2 L d lt xs]
  by blast

text \<open>
  Claim C6 at \<open>insertInPlace(L, 4, 5)\<close> and \<open>insert(L, 4, 5)\<close> with \<open>L\<close> the empty list.
  Neither variant reports an error: the test of the index is skipped for an empty list.
  Both go on to insert at \<open>begin() + 5\<close> in an empty vector, which is undefined
  behaviour, so neither returns a list. (With the index 0, \<open>insertInPlace\<close> returns \<open>L\<close>
  with the one element.)
\<close>

theorem insertInPlaceBuiltin_past_end_of_empty_list:
  "insertInPlaceBuiltin exampleToken [''l'', ''e'', ''i''] [''l'' \<mapsto> 3, ''e'' \<mapsto> 1, ''i'' \<mapsto> 2]
       emptyListStore = Undefined \<and>
   insertBuiltin exampleToken [''l'', ''e'', ''i''] [''l'' \<mapsto> 3, ''e'' \<mapsto> 1, ''i'' \<mapsto> 2]
       emptyListStore = Undefined \<and>
   diagnostics emptyListStore = [] \<and> \<not> error emptyListStore \<and>
   (\<exists>s'. insertInPlaceBuiltin exampleToken [''l'', ''e'', ''i''] [''l'' \<mapsto> 3, ''e'' \<mapsto> 1, ''i'' \<mapsto> 4]
            emptyListStore = Returned 3 s' \<and>
         listValueAt s' 3 = Some (Some (newListType (Some newIntType)), [1]))"
  by (simp add: insertInPlaceBuiltin_def insertBuiltin_def getArgumentValue_def
      compareElementType_def emptyListStore_def assignListData_def
      listValueAt_def intValueAt_def newListType_def newIntType_def Type_compare_def assignType_def)

lemma sint_unat32:
  "sint (w::int32) = (if unat w < 2147483648 then int (unat w) else int (unat w) - 4294967296)"
proof -
  have u: "0 \<le> uint w" "uint w < 4294967296" using uint_bounded[of w] by simp_all
  have iu: "int (unat w) = uint w" by simp
  have "(unat w < 2147483648) = (int (unat w) < int 2147483648)"
    by (simp only: of_nat_less_iff)
  then have lt: "(unat w < 2147483648) = (uint w < 2147483648)" by (simp only: iu) simp
  have s: "sint w = (uint w + 2147483648) mod 4294967296 - 2147483648"
    by (simp add: sint_uint signed_take_bit_eq_take_bit_shift take_bit_eq_mod)
  show ?thesis
  proof (cases "uint w < 2147483648")
    case True
    then have "(uint w + 2147483648) mod 4294967296 = uint w + 2147483648"
      using u by simp
    with True s show ?thesis by (simp only: lt iu if_True)
  next
    case False
    have "uint w + 2147483648 = (uint w - 2147483648) + 4294967296" by simp
    then have "(uint w + 2147483648) mod 4294967296 = (uint w - 2147483648) mod 4294967296"
      by (simp only: mod_add_self2)
    also have "\<dots> = uint w - 2147483648" using False u by (simp add: mod_pos_pos_trivial)
    finally show ?thesis using False s by (simp only: lt iu if_False)
  qed
qed


lemma map_nth_upt_take_drop:
  "e < length xs \<Longrightarrow> map (\<lambda>index. xs ! index) [s..<Suc e] = take (Suc e - s) (drop s xs)"
  by (rule map_upt_eqI) auto

lemma compareWithInt_Int:
  "intValueAt s p = Some (Some (IntType INT_tag), i) \<Longrightarrow> compareWithInt p s = Some (True, s)"
  unfolding compareWithInt_def intValueAt_def assignType_def
  by (cases s) (auto simp: newIntType_def Type_compare_def fun_upd_idem split: option.splits Value.splits)


lemma range_condition_arith:
  fixes a b n :: nat
  assumes "n \<le> 2147483648" "a < 4294967296" "b < 4294967296"
  shows "((if b < 2147483648 then int b else int b - 4294967296)
            < (if a < 2147483648 then int a else int a - 4294967296) \<or>
          int n \<le> (if a < 2147483648 then int a else int a - 4294967296) \<or>
          int n \<le> (if b < 2147483648 then int b else int b - 4294967296) \<or>
          (if a < 2147483648 then int a else int a - 4294967296) < 0 \<or>
          (if b < 2147483648 then int b else int b - 4294967296) < 0)
           = (b < a \<or> n \<le> a \<or> n \<le> b)"
  using assms by (cases "a < 2147483648"; cases "b < 2147483648") auto

lemma range_condition:
  fixes S E :: int32
  assumes "n \<le> 2147483648"
  shows "(sint E < sint S \<or> int n \<le> sint S \<or> int n \<le> sint E \<or> sint S < 0 \<or> sint E < 0)
           = (unat E < unat S \<or> n \<le> unat S \<or> n \<le> unat E)"
proof -
  have "unat S < 4294967296" "unat E < 4294967296"
    using unsigned_less[of S, where 'a=nat] unsigned_less[of E, where 'a=nat] by simp_all
  from range_condition_arith[OF assms this] show ?thesis
    unfolding sint_unat32[of S] sint_unat32[of E] .
qed

text \<open>
  An index that is not an integer is reported: \<open>range(List{1, 2, 3}, 'a', 2)\<close> prints
  the message for the start index and returns the null value.
\<close>

lemma rangeBuiltin_non_integer_index:
  "\<exists>s'. rangeBuiltin exampleToken [''l'', ''s'', ''e''] [''l'' \<mapsto> 10, ''s'' \<mapsto> 2, ''e'' \<mapsto> 6] exampleStore
          = Returned nullValue s' \<and>
        error s' \<and>
        diagnostics s' = [''Error: Start range index must be integer type: '' @
                           currentLineText (position exampleToken)] \<and>
        objects s' = objects exampleStore"
  by (simp add: rangeBuiltin_def getArgumentValue_def compareWithInt_def exampleStore_def
      listValueAt_def newListType_def newIntType_def newCharType_def Type_compare_def assignType_def
      reportError_def printError_def fun_upd_twist)

text \<open>
  \<open>range\<close> on a list of at most \<open>2^31\<close> elements, with a list and two integers as
  arguments: it reports an error and returns the null value when the list is empty, when
  \<open>s > e\<close>, \<open>s \<ge> |L|\<close>, \<open>e \<ge> |L|\<close>, \<open>s < 0\<close> or \<open>e < 0\<close>, and returns the
  elements at the positions \<open>s\<close> to \<open>e\<close> otherwise. A negative index is rejected only
  because its conversion to \<open>unsigned int\<close> is at least \<open>2^31\<close>, hence not below the size.
\<close>

lemma rangeBuiltin_on_lists_below_2_31:
  assumes args: "getArgumentValue 0 pn env = Some l" "getArgumentValue 1 pn env = Some sp"
      "getArgumentValue 2 pn env = Some ep"
    and l: "listValueAt s l = Some (Some (ListType d lt), xs)"
    and S: "intValueAt s sp = Some (Some (IntType INT_tag), S)"
    and E: "intValueAt s ep = Some (Some (IntType INT_tag), E)"
    and len: "length xs \<le> 2147483648"
  shows "(xs = [] \<or> sint E < sint S \<or> int (length xs) \<le> sint S \<or> int (length xs) \<le> sint E
            \<or> sint S < 0 \<or> sint E < 0 \<longrightarrow>
          (\<exists>s'. rangeBuiltin token pn env s = Returned nullValue s' \<and> error s' \<and>
                objects s' = objects s)) \<and>
         (\<not> (xs = [] \<or> sint E < sint S \<or> int (length xs) \<le> sint S \<or> int (length xs) \<le> sint E
            \<or> sint S < 0 \<or> sint E < 0) \<longrightarrow>
          (\<exists>r s'. rangeBuiltin token pn env s = Returned r s' \<and>
                listValueAt s' r
                  = Some (Some (newListType lt),
                          take (Suc (nat (sint E)) - nat (sint S)) (drop (nat (sint S)) xs))))"
proof -
  define a b where "a = unat S" and "b = unat E"
  have args1: "getArgumentValue (Suc 0) pn env = Some sp" using args(2) by simp
  have run: "rangeBuiltin token pn env s =
      (if xs = [] then reportError token errorEmptySublist s
       else if b < a \<or> length xs \<le> a \<or> length xs \<le> b
            then reportError token ''Error: Invalid range: '' s
            else if b = 4294967295 then Diverged
            else makeListType (Some (ListType d lt)) (map (\<lambda>index. xs ! index) [a..<Suc b]) s)"
    by (simp add: rangeBuiltin_def args args1 l S E compareWithInt_Int[OF S] compareWithInt_Int[OF E]
        a_def b_def Let_def)
  note c = range_condition[OF len, of E S, folded a_def b_def]
  have err: "\<exists>s'. reportError token m s = Returned nullValue s' \<and> error s' \<and> objects s' = objects s"
    for m by (simp add: reportError_def printError_def)
  show ?thesis
  proof (cases "xs = [] \<or> b < a \<or> length xs \<le> a \<or> length xs \<le> b")
    case True
    then show ?thesis using err by (auto simp: run c)
  next
    case False
    then have ok: "xs \<noteq> []" "a \<le> b" "a < length xs" "b < length xs" by auto
    with len have small: "a < 2147483648" "b < 2147483648" by auto
    then have n: "nat (sint S) = a" "nat (sint E) = b"
      using sint_unat32[of S] sint_unat32[of E] by (simp_all add: a_def b_def)
    have "rangeBuiltin token pn env s
            = makeListType (Some (ListType d lt)) (take (Suc b - a) (drop a xs)) s"
      using ok small unfolding run map_nth_upt_take_drop[OF ok(4)] by simp
    then have "\<exists>r s'. rangeBuiltin token pn env s = Returned r s' \<and>
        listValueAt s' r = Some (Some (newListType lt), take (Suc b - a) (drop a xs))"
      by (simp add: makeListType_def make_shared_def listValueAt_def)
    with False show ?thesis by (simp add: c n)
  qed
qed

text \<open>
  Claim C7 at a list of \<open>2^32 - 1\<close> elements with \<open>s = e = -2\<close>. The index \<open>-2\<close> becomes
  the \<open>unsigned int\<close> \<open>4294967294\<close>, which is below the size of the list; the tests
  \<open>startIndex < 0\<close> and \<open>endIndex < 0\<close> of the source are on unsigned numbers and never
  hold. \<open>range\<close> reports no error and returns the list of the one element at position
  \<open>4294967294\<close>.
\<close>

theorem rangeBuiltin_negative_indices_on_huge_list:
  "sint (- 2 :: int32) < 0 \<and>
   (\<exists>s'. rangeBuiltin exampleToken [''l'', ''s'', ''e''] [''l'' \<mapsto> 2, ''s'' \<mapsto> 3, ''e'' \<mapsto> 3] hugeStore
           = Returned 4 s' \<and>
         listValueAt s' 4 = Some (Some (newListType (Some newIntType)), [1]) \<and>
         diagnostics s' = [] \<and> \<not> error s')"
proof -
  have i: "intValueAt hugeStore 3 = Some (Some (IntType INT_tag), - 2)"
    by (simp add: intValueAt_def hugeStore_def newIntType_def)
  have l: "listValueAt hugeStore 2
             = Some (Some (newListType (Some newIntType)), replicate 4294967295 1)"
    by (simp add: listValueAt_def hugeStore_def)
  have n: "nextValue hugeStore = 4" "diagnostics hugeStore = []" "\<not> error hugeStore"
    by (simp_all add: hugeStore_def)
  have run: "rangeBuiltin exampleToken [''l'', ''s'', ''e''] [''l'' \<mapsto> 2, ''s'' \<mapsto> 3, ''e'' \<mapsto> 3] hugeStore
               = makeListType (Some (newListType (Some newIntType))) [1] hugeStore"
    by (simp add: rangeBuiltin_def getArgumentValue_def compareWithInt_Int[OF i] i l)
  show ?thesis unfolding run
    by (simp add: makeListType_def newListType_def make_shared_def n listValueAt_def)
qed

section \<open>Properties of the import pre-processor\<close>






















text \<open>
  A nested import that ends: with \<open>a.bnt\<close> importing \<open>lib/b.bnt\<close>, the directive of
  \<open>a.bnt\<close> is replaced in the same pass, and the second pass finds none.
\<close>

lemma scanImports_library_first:
  "scanImports libraryFiles 0 False
     [mkToken KEYWORD ''import'', mkToken IDENT ''a'', mkToken DELIM '';'', mkToken IDENT ''z'']
   = Some (Finished (True,
       [mkToken IDENT ''x'', mkToken IDENT ''y'', mkToken DELIM '';'', mkToken DELIM '';'',
        mkToken DELIM '';'', mkToken IDENT ''z'']))"
  by (simp add: scanImports.simps parseImport_def libraryFiles_def mkToken_def)

lemma scanImports_library_second:
  "scanImports libraryFiles 0 False
     [mkToken IDENT ''x'', mkToken IDENT ''y'', mkToken DELIM '';'', mkToken DELIM '';'',
        mkToken DELIM '';'', mkToken IDENT ''z'']
   = Some (Finished (False,
       [mkToken IDENT ''x'', mkToken IDENT ''y'', mkToken DELIM '';'', mkToken DELIM '';'',
        mkToken DELIM '';'', mkToken IDENT ''z'']))"
  by (simp add: scanImports.simps mkToken_def)

lemma preprocessImports_library:
  "preprocessImports libraryFiles
     [mkToken KEYWORD ''import'', mkToken IDENT ''a'', mkToken DELIM '';'', mkToken IDENT ''z'']
   = Some (Finished
       [mkToken IDENT ''x'', mkToken IDENT ''y'', mkToken DELIM '';'', mkToken DELIM '';'',
        mkToken DELIM '';'', mkToken IDENT ''z''])"
proof -
  have "preprocessImports libraryFiles
     [mkToken KEYWORD ''import'', mkToken IDENT ''a'', mkToken DELIM '';'', mkToken IDENT ''z'']
   = preprocessImports libraryFiles
       [mkToken IDENT ''x'', mkToken IDENT ''y'', mkToken DELIM '';'', mkToken DELIM '';'',
        mkToken DELIM '';'', mkToken IDENT ''z'']"
    by (subst preprocessImports.simps) (simp add: scanImports_library_first)
  also have "\<dots> = Some (Finished
       [mkToken IDENT ''x'', mkToken IDENT ''y'', mkToken DELIM '';'', mkToken DELIM '';'',
        mkToken DELIM '';'', mkToken IDENT ''z''])"
    by (subst preprocessImports.simps) (simp add: scanImports_library_second)
  finally show ?thesis .
qed

section \<open>Properties of the environments of functions\<close>













section \<open>Properties of the type checker on expressions\<close>

lemma eval_Branch_order:
  "eval ops (Branch token rt c t e) env X st = Some (b', res, X', st') \<Longrightarrow>
     \<exists>c' r1 x1 st1 e' elseResult st2 t' x3.
        eval ops c env (Some newBoolType) st = Some (c', r1, x1, st1) \<and>
        eval ops e env X st1 = Some (e', elseResult, X', st2) \<and>
        eval ops t env (returnType elseResult) st2 = Some (t', res, x3, st') \<and>
        b' = Branch token rt c' t' e'"
  by (auto split: option.splits)

lemma literal_left_unchanged:
  assumes "T \<in> {newIntType, newBoolType, newCharType, newStringType, newNullType}"
    and "TypeChecker_compare (Some T) X = Some (b, T', X')"
  shows "T' = Some T"
  using assms
  by (auto simp: TypeChecker_compare_def Type_compare_def newIntType_def newBoolType_def
      newCharType_def newStringType_def newNullType_def split: option.splits if_splits)

lemma literal_compare_literal:
  assumes "T \<in> {newIntType, newBoolType, newCharType, newStringType, newNullType}"
    and "E \<in> {newIntType, newBoolType, newCharType, newStringType, newNullType}"
  shows "TypeChecker_compare (Some T) (Some E) = Some (T = E, Some T, Some E)"
  using assms
  by (auto simp: TypeChecker_compare_def Type_compare_def newIntType_def newBoolType_def
      newCharType_def newStringType_def newNullType_def)

lemma literal_arms_agree:
  assumes T: "T \<in> {newIntType, newBoolType, newCharType, newStringType, newNullType}"
    and E: "E \<in> {newIntType, newBoolType, newCharType, newStringType, newNullType}"
    and c: "eval ops c env (Some newBoolType) st = Some (c', r1, x1, st1)"
    and run: "eval ops (Branch token rt c (Literal tt (Some T) dt) (Literal te (Some E) de)) env X st
                = Some (b', res, X', st')"
  shows "(typeDiagnostics st' = typeDiagnostics st1 \<longrightarrow> T = E) \<and>
         (T \<noteq> E \<longrightarrow> last (typeDiagnostics st') = MismatchedType tt (Some T) (Some E))"
proof -
  from eval_Branch_order[OF run] c obtain e' elseResult st2 t' x3 where
    e: "eval ops (Literal te (Some E) de) env X st1 = Some (e', elseResult, X', st2)"
    and t: "eval ops (Literal tt (Some T) dt) env (returnType elseResult) st2 = Some (t', res, x3, st')"
    by auto
  from e obtain b1 E1 where ce: "TypeChecker_compare (Some E) X = Some (b1, E1, X')"
    and er: "elseResult = Literal te E1 de"
    and s2: "st2 = (if b1 then st1 else printMismatchError te E1 X' st1)"
    by (auto simp: evalLiteral_def split: option.splits)
  from literal_left_unchanged[OF E ce] er have rt: "returnType elseResult = Some E" by simp
  from t rt literal_compare_literal[OF T E]
  have s3: "st' = (if T = E then st2 else printMismatchError tt (Some T) (Some E) st2)"
    by (auto simp: evalLiteral_def)
  show ?thesis using s2 s3 by (auto simp: printMismatchError_def)
qed


text \<open>
  Claim C8 at \<open>if (true) 1 + 2 else false\<close>, checked against \<open>bool\<close>. \<open>evalBranch\<close>
  checks the else arm against \<open>bool\<close> and then hands the type of the else arm, \<open>bool\<close>,
  to the check of the then arm. The then arm is a \<open>Primitive\<close>, and \<open>evalPrimitive\<close>
  never compares the type of its node with the expected type it is given (the checks of
  the other nodes do): the check ends with no diagnostic and the error latch not set,
  although the then arm has the type \<open>int\<close> and the else arm the type \<open>bool\<close>. The two
  arms are not forced to agree.
\<close>

theorem evalBranch_arms_not_forced_to_agree:
  "eval exampleOperatorClasses
      (Branch exampleToken (Some newIntType) exampleCondition exampleSum exampleFalse)
      Map.empty (Some newBoolType) initialCheckerState
   = Some (Branch exampleToken (Some newIntType) exampleCondition exampleSum exampleFalse,
           exampleSum, Some newBoolType, initialCheckerState) \<and>
   typeDiagnostics initialCheckerState = [] \<and>
   returnType exampleSum = Some newIntType \<and>
   returnType exampleFalse = Some newBoolType \<and>
   dataType newIntType \<noteq> dataType newBoolType"
  by (simp add: exampleOperatorClasses_def exampleCondition_def exampleSum_def exampleFalse_def
      evalLiteral_def TypeChecker_compare_def Type_compare_def newIntType_def newBoolType_def
      initialCheckerState_def)

text \<open>
  The same check passes whatever the classification of the operators is, which the
  sources do not contain; the then arm has the type \<open>int\<close> as soon as \<open>+\<close> counts as
  a unary or an arithmetic operator.
\<close>

lemma evalBranch_example_for_any_operator_classes:
  "\<exists>b' res. eval ops (Branch exampleToken (Some newIntType) exampleCondition exampleSum exampleFalse)
               Map.empty (Some newBoolType) initialCheckerState
             = Some (b', res, Some newBoolType, initialCheckerState) \<and>
            (isUnaryOperator ops PLUS_op \<or> isArithmeticOperator ops PLUS_op \<longrightarrow>
               returnType res = Some newIntType)"
  by (cases "isUnaryOperator ops PLUS_op"; cases "isArithmeticOperator ops PLUS_op";
      cases "isBinaryBooleanOperator ops PLUS_op")
     (simp_all add: exampleCondition_def exampleSum_def exampleFalse_def
      evalLiteral_def TypeChecker_compare_def Type_compare_def newIntType_def newBoolType_def
      newUnknownType_def isPrimitiveType_def initialCheckerState_def)

text \<open>
  The order of the three checks is the one the source shows. A check of a \<open>Branch\<close> that
  returns consists of the check of the condition against \<open>Bool\<close> in the initial state,
  then the check of the else branch against the expected type, then the check of the then
  branch against the \<open>returnType\<close> of the node the else check returned; its result is
  that of the then branch, its expected type that of the else check. Where both arms are
  literals the arms are forced to agree: after the condition, the diagnostics are at most
  one mismatch of the else arm against the expected type, followed by a mismatch of the
  then arm against the type of the else arm exactly when the two types differ.
\<close>

lemma evalBranch_checks_condition_else_then:
  "(eval ops (Branch token rt c t e) env X st = Some (b', res, X', st') \<longrightarrow>
      (\<exists>c' r1 x1 st1 e' elseResult st2 t' x3.
          eval ops c env (Some newBoolType) st = Some (c', r1, x1, st1) \<and>
          eval ops e env X st1 = Some (e', elseResult, X', st2) \<and>
          eval ops t env (returnType elseResult) st2 = Some (t', res, x3, st') \<and>
          b' = Branch token rt c' t' e')) \<and>
   (T \<in> {newIntType, newBoolType, newCharType, newStringType, newNullType} \<and>
    E \<in> {newIntType, newBoolType, newCharType, newStringType, newNullType} \<and>
    eval ops c env (Some newBoolType) st = Some (c1, r1, x1, st1) \<and>
    eval ops (Branch token rt c (Literal tt (Some T) dt) (Literal te (Some E) de)) env X st
      = Some (b2, res2, X2, st2) \<longrightarrow>
      (\<exists>ds. typeDiagnostics st2
              = typeDiagnostics st1 @ ds @
                  (if T = E then [] else [MismatchedType tt (Some T) (Some E)]) \<and>
            (ds = [] \<or> ds = [MismatchedType te (Some E) X2])))"
proof (intro conjI impI)
  assume "eval ops (Branch token rt c t e) env X st = Some (b', res, X', st')"
  then show "\<exists>c' r1 x1 st1 e' elseResult st2 t' x3.
          eval ops c env (Some newBoolType) st = Some (c', r1, x1, st1) \<and>
          eval ops e env X st1 = Some (e', elseResult, X', st2) \<and>
          eval ops t env (returnType elseResult) st2 = Some (t', res, x3, st') \<and>
          b' = Branch token rt c' t' e'"
    by (rule eval_Branch_order)
next
  assume a: "T \<in> {newIntType, newBoolType, newCharType, newStringType, newNullType} \<and>
    E \<in> {newIntType, newBoolType, newCharType, newStringType, newNullType} \<and>
    eval ops c env (Some newBoolType) st = Some (c1, r1, x1, st1) \<and>
    eval ops (Branch token rt c (Literal tt (Some T) dt) (Literal te (Some E) de)) env X st
      = Some (b2, res2, X2, st2)"
  then have T: "T \<in> {newIntType, newBoolType, newCharType, newStringType, newNullType}"
    and E: "E \<in> {newIntType, newBoolType, newCharType, newStringType, newNullType}"
    and c: "eval ops c env (Some newBoolType) st = Some (c1, r1, x1, st1)"
    and run: "eval ops (Branch token rt c (Literal tt (Some T) dt) (Literal te (Some E) de)) env X st
      = Some (b2, res2, X2, st2)" by blast+
  from eval_Branch_order[OF run] c obtain e' elseResult s2 t' x3 where
    e: "eval ops (Literal te (Some E) de) env X st1 = Some (e', elseResult, X2, s2)"
    and t: "eval ops (Literal tt (Some T) dt) env (returnType elseResult) s2 = Some (t', res2, x3, st2)"
    by auto
  from e obtain b1 E1 where ce: "TypeChecker_compare (Some E) X = Some (b1, E1, X2)"
    and er: "elseResult = Literal te E1 de"
    and s2: "s2 = (if b1 then st1 else printMismatchError te E1 X2 st1)"
    by (auto simp: evalLiteral_def split: option.splits)
  from literal_left_unchanged[OF E ce] have E1: "E1 = Some E" .
  with er have rt: "returnType elseResult = Some E" by simp
  from t rt literal_compare_literal[OF T E]
  have s3: "st2 = (if T = E then s2 else printMismatchError tt (Some T) (Some E) s2)"
    by (auto simp: evalLiteral_def)
  show "\<exists>ds. typeDiagnostics st2
              = typeDiagnostics st1 @ ds @
                  (if T = E then [] else [MismatchedType tt (Some T) (Some E)]) \<and>
            (ds = [] \<or> ds = [MismatchedType te (Some E) X2])"
    using s2 s3 E1
    by (intro exI[of _ "if b1 then [] else [MismatchedType te (Some E) X2]"])
       (simp add: printMismatchError_def)
qed

lemma evalBranch_mismatched_literal_arms_example:
  "newIntType \<in> {newIntType, newBoolType, newCharType, newStringType, newNullType} \<and>
   newBoolType \<in> {newIntType, newBoolType, newCharType, newStringType, newNullType} \<and>
   eval exampleOperatorClasses exampleCondition Map.empty (Some newBoolType) initialCheckerState
     = Some (exampleCondition, exampleCondition, Some newBoolType, initialCheckerState) \<and>
   (\<exists>st2. eval exampleOperatorClasses
            (Branch exampleToken (Some newIntType) exampleCondition exampleOne exampleFalse)
            Map.empty (Some newUnknownType) initialCheckerState
          = Some (Branch exampleToken (Some newIntType) exampleCondition exampleOne exampleFalse,
                  exampleOne, Some newBoolType, st2) \<and>
          (\<exists>ds. typeDiagnostics st2
                  = typeDiagnostics initialCheckerState @ ds @
                      [MismatchedType exampleToken (Some newIntType) (Some newBoolType)]))"
proof -
  have T: "newIntType \<in> {newIntType, newBoolType, newCharType, newStringType, newNullType}" by simp
  have E: "newBoolType \<in> {newIntType, newBoolType, newCharType, newStringType, newNullType}" by simp
  have ne: "newIntType \<noteq> newBoolType" by (simp add: newIntType_def newBoolType_def)
  have c: "eval exampleOperatorClasses exampleCondition Map.empty (Some newBoolType) initialCheckerState
     = Some (exampleCondition, exampleCondition, Some newBoolType, initialCheckerState)"
    by (simp add: exampleCondition_def evalLiteral_def TypeChecker_compare_def Type_compare_def
        newBoolType_def)
  obtain st2 where run: "eval exampleOperatorClasses
            (Branch exampleToken (Some newIntType) exampleCondition
               (Literal exampleToken (Some newIntType) (IntData 1))
               (Literal exampleToken (Some newBoolType) (BoolData False)))
            Map.empty (Some newUnknownType) initialCheckerState
          = Some (Branch exampleToken (Some newIntType) exampleCondition exampleOne exampleFalse,
                  exampleOne, Some newBoolType, st2)"
    by (simp add: exampleCondition_def exampleOne_def exampleFalse_def evalLiteral_def
        TypeChecker_compare_def Type_compare_def newIntType_def newBoolType_def newUnknownType_def)
  from evalBranch_checks_condition_else_then[THEN conjunct2, rule_format,
      OF conjI[OF T conjI[OF E conjI[OF c run]]]] ne
  have "\<exists>ds. typeDiagnostics st2
                  = typeDiagnostics initialCheckerState @ ds @
                      [MismatchedType exampleToken (Some newIntType) (Some newBoolType)]"
    by auto
  with T E c run show ?thesis unfolding exampleOne_def exampleFalse_def by blast
qed

end
